theory Spec2Isabelle
  imports Main
begin

text \<open>
  The extraction of event records from fetched pages in sf-events, with the
  classification of their date texts and the grouping for the report: \<open>extractEvents\<close>
  and the grouping of \<open>processHtmlFiles\<close> as \<open>process-html.js\<close> has them, and the two
  filters for today's report as the revision of \<open>processHtmlFiles\<close> that filters by date
  has them. Logging and the debugging of one named source are left out.
\<close>

section \<open>JavaScript strings\<close>

text \<open>
  A JavaScript string is modelled as a \<^typ>\<open>string\<close> whose characters are the code units
  of a Latin-1 text (one \<^typ>\<open>char\<close> per UTF-16 code unit below 256), so that
  \<open>length\<close> is the \<open>.length\<close> of the source.
\<close>

definition isSpace :: "char \<Rightarrow> bool" where
  \<comment> \<open>the class \<open>\s\<close> of a regular expression and the white space of \<open>trim()\<close>:
      TAB, LF, VT, FF, CR, SPACE and NBSP\<close>
  "isSpace c = (let n = (of_char c :: nat) in (9 \<le> n \<and> n \<le> 13) \<or> n = 32 \<or> n = 160)"

definition isWordChar :: "char \<Rightarrow> bool" where
  \<comment> \<open>the class \<open>\w\<close>, which decides where \<open>\b\<close> matches\<close>
  "isWordChar c = (let n = (of_char c :: nat) in
     (48 \<le> n \<and> n \<le> 57) \<or> (65 \<le> n \<and> n \<le> 90) \<or> n = 95 \<or> (97 \<le> n \<and> n \<le> 122))"

definition isDigit :: "char \<Rightarrow> bool" where
  \<comment> \<open>the class \<open>\d\<close>\<close>
  "isDigit c = (let n = (of_char c :: nat) in 48 \<le> n \<and> n \<le> 57)"

definition lowerChar :: "char \<Rightarrow> char" where
  \<comment> \<open>\<open>toLowerCase()\<close> on one code unit: the capitals A to Z and those of Latin-1 become
      the letter 32 places on, which sets one bit\<close>
  "lowerChar c = (let n = (of_char c :: nat) in
     if (65 \<le> n \<and> n \<le> 90) \<or> (192 \<le> n \<and> n \<le> 222 \<and> n \<noteq> 215)
     then (case c of Char b0 b1 b2 b3 b4 b5 b6 b7 \<Rightarrow> Char b0 b1 b2 b3 b4 True b6 b7)
     else c)"

definition toLowerCase :: "string \<Rightarrow> string" where
  "toLowerCase s = map lowerChar s"

fun startsWith :: "string \<Rightarrow> string \<Rightarrow> bool" where
  "startsWith s [] = True"
| "startsWith [] (p # ps) = False"
| "startsWith (c # cs) (p # ps) = (c = p \<and> startsWith cs ps)"

definition endsWith :: "string \<Rightarrow> string \<Rightarrow> bool" where
  "endsWith s p = startsWith (rev s) (rev p)"

fun includes_str :: "string \<Rightarrow> string \<Rightarrow> bool" where
  \<comment> \<open>\<open>s.includes(p)\<close>: \<open>p\<close> occurs in \<open>s\<close> as a contiguous substring\<close>
  "includes_str [] p = (p = [])"
| "includes_str (c # cs) p = (startsWith (c # cs) p \<or> includes_str cs p)"

definition trim :: "string \<Rightarrow> string" where
  "trim s = rev (dropWhile isSpace (rev (dropWhile isSpace s)))"

fun collapseRun :: "bool \<Rightarrow> string \<Rightarrow> string" where
  \<comment> \<open>the flag says whether the character before is white space already replaced\<close>
  "collapseRun inRun [] = []"
| "collapseRun inRun (c # cs) =
     (if isSpace c then (if inRun then collapseRun True cs else CHR '' '' # collapseRun True cs)
      else c # collapseRun False cs)"

definition collapseSpaces :: "string \<Rightarrow> string" where
  \<comment> \<open>\<open>s.replace(/\s+/g, ' ')\<close>: every maximal run of white space becomes one space\<close>
  "collapseSpaces s = collapseRun False s"

fun join_space :: "string list \<Rightarrow> string" where
  \<comment> \<open>\<open>xs.join(' ')\<close>\<close>
  "join_space [] = []"
| "join_space [x] = x"
| "join_space (x # y # ys) = x @ '' '' @ join_space (y # ys)"

definition digitChar :: "nat \<Rightarrow> char" where
  "digitChar n = ''0123456789'' ! n"

fun toString :: "nat \<Rightarrow> string" where
  \<comment> \<open>\<open>n.toString()\<close> and \<open>`${n}`\<close> for a non-negative integer\<close>
  "toString n = (if n < 10 then [digitChar n] else toString (n div 10) @ [digitChar (n mod 10)])"

declare toString.simps [simp del]

definition digitValue :: "char \<Rightarrow> nat" where
  "digitValue c = of_char c - 48"

definition Number_digits :: "string \<Rightarrow> int" where
  \<comment> \<open>\<open>Number(s)\<close> for a string of decimal digits\<close>
  "Number_digits s = int (foldl (\<lambda>acc c. 10 * acc + digitValue c) 0 s)"

definition digitsOnly :: "string \<Rightarrow> bool" where
  \<comment> \<open>\<open>/^\d+$/\<close>\<close>
  "digitsOnly s = (s \<noteq> [] \<and> list_all isDigit s)"

definition numSepNum :: "char \<Rightarrow> string \<Rightarrow> (string \<times> string) option" where
  \<comment> \<open>\<open>/^\d+SEP\d+$/.test(s)\<close> followed by \<open>s.split(SEP)\<close>, for a separator that is
      not a digit: the two digit strings, or \<open>None\<close> when the test fails\<close>
  "numSepNum sep s =
     (let a = takeWhile (\<lambda>c. c \<noteq> sep) s; b = drop (length a) s
      in if digitsOnly a \<and> b \<noteq> [] \<and> digitsOnly (tl b) then Some (a, tl b) else None)"

definition endBoundary :: "string \<Rightarrow> bool" where
  \<comment> \<open>\<open>\b\<close> after a word character: the rest is empty or starts with a non-word character\<close>
  "endBoundary rest = (case rest of [] \<Rightarrow> True | c # _ \<Rightarrow> \<not> isWordChar c)"

fun scanToken :: "bool \<Rightarrow> string \<Rightarrow> string \<Rightarrow> bool" where
  \<comment> \<open>the search of \<open>\bP\b\<close> from the current position; the flag says whether the
      character before it is a word character\<close>
  "scanToken prevWord p [] = False"
| "scanToken prevWord p (c # cs) =
     ((\<not> prevWord \<and> startsWith (c # cs) p \<and> endBoundary (drop (length p) (c # cs)))
      \<or> scanToken (isWordChar c) p cs)"

definition testToken :: "string \<Rightarrow> string \<Rightarrow> bool" where
  \<comment> \<open>\<open>new RegExp(`\\bP\\b`).test(s)\<close> for a literal \<open>P\<close> that starts and ends with a
      digit, as \<open>`${todayMonth}\\/${todayDate}`\<close> does\<close>
  "testToken p s = scanToken False p s"

section \<open>JavaScript values\<close>

text \<open>
  What \<open>JSON.parse\<close> returns, with \<open>undefined\<close> for a property that is missing. The
  program tests a number of a page for truth, converts it to a string and hands it to
  \<open>new Date\<close>, and does nothing else with it, so a number is held as the text that
  JavaScript prints for it: \<open>0\<close> for zero and for minus zero, \<open>0.5\<close> for a fraction,
  \<open>1e+21\<close> from \<open>10^21\<close> on, \<open>Infinity\<close> for a literal beyond the range of a double.
  \<open>JSON.parse\<close> returns no \<open>NaN\<close>, so zero is the one number that is not truthy.
\<close>

datatype jsval =
    JUndefined
  | JNull
  | JBool bool
  | JNum string
  | JStr string
  | JArr "jsval list"
  | JObj "(string \<times> jsval) list"

datatype error = TypeError | SelectorError

fun truthy :: "jsval \<Rightarrow> bool" where
  "truthy JUndefined = False"
| "truthy JNull = False"
| "truthy (JBool b) = b"
| "truthy (JNum printed) = (printed \<noteq> ''0'')"
| "truthy (JStr s) = (s \<noteq> [])"
| "truthy (JArr xs) = True"
| "truthy (JObj kvs) = True"

definition or_else :: "jsval \<Rightarrow> jsval \<Rightarrow> jsval" where
  \<comment> \<open>\<open>a || b\<close>\<close>
  "or_else a b = (if truthy a then a else b)"

section \<open>The reference date and the event record\<close>

record today =
  todayDate :: nat    \<comment> \<open>\<open>today.getDate()\<close>, 1 to 31\<close>
  todayMonth :: nat   \<comment> \<open>\<open>today.getMonth() + 1\<close>, 1 to 12\<close>
  todayYear :: int    \<comment> \<open>\<open>today.getFullYear()\<close>\<close>
  dayOfWeek :: nat    \<comment> \<open>\<open>today.getDay()\<close>, 0 (Sunday) to 6 (Saturday)\<close>

record event =
  title :: jsval
  date :: jsval
  time :: jsval
  url :: jsval
  venue :: jsval
  region :: string
  source_url :: string
  is_today :: bool

definition dayNames :: "string list" where
  "dayNames = [''sunday'', ''monday'', ''tuesday'', ''wednesday'', ''thursday'', ''friday'',
     ''saturday'']"

definition shortDayNames :: "string list" where
  "shortDayNames = [''sun'', ''mon'', ''tue'', ''wed'', ''thu'', ''fri'', ''sat'']"

definition monthNames :: "string list" where
  "monthNames = [''january'', ''february'', ''march'', ''april'', ''may'', ''june'',
     ''july'', ''august'', ''september'', ''october'', ''november'', ''december'']"

definition shortMonthNames :: "string list" where
  "shortMonthNames = [''jan'', ''feb'', ''mar'', ''apr'', ''may'', ''jun'', ''jul'', ''aug'',
     ''sep'', ''oct'', ''nov'', ''dec'']"

definition at_index :: "string list \<Rightarrow> int \<Rightarrow> string" where
  \<comment> \<open>\<open>names[i]\<close> where the result is searched for or compared as a string: out of range
      the source reads \<open>undefined\<close>, which \<open>includes\<close> turns into the text "undefined"\<close>
  "at_index names i = (if 0 \<le> i \<and> i < int (length names) then names ! nat i else ''undefined'')"

definition monthIndex :: "today \<Rightarrow> int" where
  "monthIndex t = int (todayMonth t) - 1"

section \<open>Date classification at extraction (process-html.js, extractEvents)\<close>

definition isToday_html :: "today \<Rightarrow> string \<Rightarrow> bool" where
  "isToday_html t dateText =
     (if dateText = [] then False
      else
        let lowerDate = toLowerCase dateText;
            keyword = (includes_str lowerDate ''today'' \<or> includes_str lowerDate ''tonight'')
        in if includes_str lowerDate (toString (todayDate t))
           then keyword
             \<or> (includes_str lowerDate (at_index monthNames (monthIndex t))
                \<or> includes_str lowerDate (at_index shortMonthNames (monthIndex t)))
             \<or> includes_str lowerDate (at_index shortDayNames (int (dayOfWeek t)))
           else keyword)"

section \<open>Dates of the runtime\<close>

text \<open>
  A \<open>Date\<close> object is modelled by what the source reads from it: its local calendar fields
  (\<open>getFullYear()\<close>, \<open>getMonth()\<close> from 0, \<open>getDate()\<close>), absent for an invalid date whose
  fields are all \<open>NaN\<close>, and the two texts that \<open>toLocaleDateString\<close> and
  \<open>toLocaleTimeString\<close> give with the options of the source.
\<close>

type_synonym civil = "int \<times> int \<times> int"

record jsdate =
  civil :: "civil option"
  localeDate :: string
  localeTime :: string

text \<open>
  The parts of the JavaScript runtime whose result depends on the engine: \<open>new Date(v)\<close> for
  one value (the parse of a date text is implementation-defined outside the ISO format) and
  \<open>new URL(href, new URL(base)).href\<close>, which is \<open>None\<close> when either constructor throws.
\<close>

record runtime =
  new_Date :: "jsval \<Rightarrow> jsdate"
  resolve_URL :: "string \<Rightarrow> string \<Rightarrow> string option"

definition daysFromCivil :: "int \<Rightarrow> int \<Rightarrow> int \<Rightarrow> int" where
  \<comment> \<open>the day number (0 is 1 January 1970) of a year, a month from 1 to 12 and a day of
      the proleptic Gregorian calendar\<close>
  "daysFromCivil y m d =
     (let y' = (if m \<le> 2 then y - 1 else y);
          era = y' div 400;
          yoe = y' - era * 400;
          mp = (m + 9) mod 12;
          doy = (153 * mp + 2) div 5 + d - 1;
          doe = yoe * 365 + yoe div 4 - yoe div 100 + doy
      in era * 146097 + doe - 719468)"

definition civilFromDays :: "int \<Rightarrow> civil" where
  \<comment> \<open>the year, the month from 0 and the day of the month of a day number\<close>
  "civilFromDays z =
     (let z' = z + 719468;
          era = z' div 146097;
          doe = z' - era * 146097;
          yoe = (doe - doe div 1460 + doe div 36524 - doe div 146096) div 365;
          doy = doe - (365 * yoe + yoe div 4 - yoe div 100);
          mp = (5 * doy + 2) div 153;
          d = doy - (153 * mp + 2) div 5 + 1;
          m = (if mp < 10 then mp + 3 else mp - 9);
          y = yoe + era * 400
      in (if m \<le> 2 then y + 1 else y, m - 1, d))"

definition Date_ymd :: "int \<Rightarrow> int \<Rightarrow> int \<Rightarrow> civil option" where
  \<comment> \<open>\<open>new Date(year, month, day)\<close>, by its local calendar fields: a year from 0 to 99
      counts from 1900, month and day overflow into the neighbouring months and years, and
      a date more than 100,000,000 days from 1970 is invalid (the time zone moves this
      bound by less than a day)\<close>
  "Date_ymd y m d =
     (let yr = (if 0 \<le> y \<and> y \<le> 99 then 1900 + y else y);
          ym = yr + m div 12;
          mn = m mod 12;
          dayNumber = daysFromCivil ym (mn + 1) 1 + d - 1
      in if \<bar>dayNumber\<bar> \<le> 100000000 then Some (civilFromDays dayNumber) else None)"

section \<open>The filter for today's events (processHtmlFiles, todaysEvents)\<close>

text \<open>
  The reference date is read once when the script starts (\<open>todayDate\<close>, \<open>todayMonth\<close>,
  \<open>todayYear\<close>, \<open>today.getDay()\<close>) and is a parameter here.
\<close>

definition hasOtherMonth :: "today \<Rightarrow> string \<Rightarrow> bool" where
  "hasOtherMonth t lowerDate =
     (let otherMonths = filter (\<lambda>m. m \<noteq> at_index monthNames (monthIndex t)
                                   \<and> m \<noteq> at_index shortMonthNames (monthIndex t))
                          (monthNames @ shortMonthNames)
      in list_ex (\<lambda>month. includes_str lowerDate month) otherMonths)"

definition parsedDate :: "runtime \<Rightarrow> today \<Rightarrow> string \<Rightarrow> civil option" where
  \<comment> \<open>the \<open>dateObj\<close> of the last check, \<open>None\<close> when \<open>isNaN(dateObj.getTime())\<close>\<close>
  "parsedDate rt t lowerDate =
     (let dateString = trim lowerDate
      in case numSepNum (CHR ''.'') dateString of
           Some (month, day) \<Rightarrow>
             Date_ymd (todayYear t) (Number_digits month - 1) (Number_digits day)
         | None \<Rightarrow>
            (case numSepNum (CHR ''/'') dateString of
               Some (month, day) \<Rightarrow>
                 Date_ymd (todayYear t) (Number_digits month - 1) (Number_digits day)
             | None \<Rightarrow> civil (new_Date rt (JStr dateString))))"

definition isMatchingDate :: "today \<Rightarrow> civil \<Rightarrow> bool" where
  "isMatchingDate t c =
     (case c of (fullYear, month, dayOfMonth) \<Rightarrow>
        dayOfMonth = int (todayDate t) \<and> month = monthIndex t
        \<and> (fullYear = todayYear t \<or> fullYear = 0))"

definition todaysEvents_date :: "runtime \<Rightarrow> today \<Rightarrow> string \<Rightarrow> bool" where
  \<comment> \<open>the body of \<open>if (event.date) { ... }\<close> and the final \<open>return false\<close>\<close>
  "todaysEvents_date rt t dateText =
     (let lowerDate = toLowerCase dateText;
          hasDay = (includes_str lowerDate (at_index dayNames (int (dayOfWeek t)))
                    \<or> includes_str lowerDate (at_index shortDayNames (int (dayOfWeek t))));
          hasMonth = (includes_str lowerDate (at_index monthNames (monthIndex t))
                      \<or> includes_str lowerDate (at_index shortMonthNames (monthIndex t)));
          d = toString (todayDate t);
          m = toString (todayMonth t)
      in if includes_str lowerDate ''today'' \<or> includes_str lowerDate ''tonight'' then True
         else if hasDay \<and> hasMonth \<and> includes_str lowerDate d then True
         else if (hasMonth
                  \<and> (includes_str lowerDate ('' '' @ d) \<or> includes_str lowerDate (d @ '','')
                     \<or> includes_str lowerDate (d @ '' '') \<or> endsWith lowerDate d))
                 \<and> \<not> hasOtherMonth t lowerDate then True
         else if testToken (m @ ''.'' @ d) lowerDate then True
         else if testToken (m @ ''/'' @ d) lowerDate then True
         else (case parsedDate rt t lowerDate of
                 Some c \<Rightarrow> isMatchingDate t c
               | None \<Rightarrow> False))"

definition todaysEvents_keep :: "runtime \<Rightarrow> today \<Rightarrow> event \<Rightarrow> error + bool" where
  \<comment> \<open>the callback of \<open>allEvents.filter\<close>; a date that is neither falsy nor a string has no
      \<open>toLowerCase\<close>, and the call throws\<close>
  "todaysEvents_keep rt t ev =
     (if is_today ev then Inr True
      else if truthy (date ev)
           then (case date ev of
                   JStr s \<Rightarrow> Inr (todaysEvents_date rt t s)
                 | _ \<Rightarrow> Inl TypeError)
           else Inr False)"

fun filter_js :: "('a \<Rightarrow> error + bool) \<Rightarrow> 'a list \<Rightarrow> error + 'a list" where
  \<comment> \<open>\<open>xs.filter(f)\<close> for a callback that may throw\<close>
  "filter_js f [] = Inr []"
| "filter_js f (x # xs) =
     (case f x of
        Inl e \<Rightarrow> Inl e
      | Inr keep \<Rightarrow>
         (case filter_js f xs of
            Inl e \<Rightarrow> Inl e
          | Inr ys \<Rightarrow> Inr (if keep then x # ys else ys)))"

definition todaysEvents :: "runtime \<Rightarrow> today \<Rightarrow> event list \<Rightarrow> error + event list" where
  "todaysEvents rt t allEvents = filter_js (todaysEvents_keep rt t) allEvents"

section \<open>The strict second pass (processHtmlFiles, strictlyFilteredEvents)\<close>

fun otherDayName :: "today \<Rightarrow> string \<Rightarrow> nat list \<Rightarrow> bool" where
  \<comment> \<open>the loop over \<open>i\<close>: true when it reaches its \<open>return false\<close>\<close>
  "otherDayName t lowerDate [] = False"
| "otherDayName t lowerDate (i # rest) =
     (if i \<noteq> dayOfWeek t
         \<and> (includes_str lowerDate (at_index dayNames (int i))
            \<or> includes_str lowerDate (at_index shortDayNames (int i)))
      then True
      else otherDayName t lowerDate rest)"

definition otherDates :: "today \<Rightarrow> nat list" where
  "otherDates t = filter (\<lambda>d. d \<noteq> todayDate t) (map (\<lambda>i. i + 1) [0..<31])"

definition mentionsDate :: "today \<Rightarrow> string \<Rightarrow> nat \<Rightarrow> bool" where
  \<comment> \<open>the condition inside the loop over \<open>otherDates\<close>\<close>
  "mentionsDate t lowerDate otherDate =
     (includes_str lowerDate ('' '' @ toString otherDate)
      \<or> includes_str lowerDate (toString otherDate @ '','')
      \<or> testToken (toString (todayMonth t) @ ''/'' @ toString otherDate) lowerDate
      \<or> testToken (toString (todayMonth t) @ ''.'' @ toString otherDate) lowerDate)"

fun otherDateLoop :: "today \<Rightarrow> string \<Rightarrow> nat list \<Rightarrow> bool" where
  \<comment> \<open>the loop over \<open>otherDates\<close>: true when it reaches its \<open>return false\<close>\<close>
  "otherDateLoop t lowerDate [] = False"
| "otherDateLoop t lowerDate (otherDate # rest) =
     (if mentionsDate t lowerDate otherDate then True
      else otherDateLoop t lowerDate rest)"

definition strict_date :: "today \<Rightarrow> string \<Rightarrow> bool" where
  \<comment> \<open>the body of \<open>if (event.date) { ... }\<close> and the final \<open>return true\<close>\<close>
  "strict_date t dateText =
     (let lowerDate = toLowerCase dateText
      in if otherDayName t lowerDate [0..<length dayNames] then False
         else if otherDateLoop t lowerDate (otherDates t) then False
         else True)"

definition strictlyFiltered_keep :: "today \<Rightarrow> event \<Rightarrow> error + bool" where
  "strictlyFiltered_keep t ev =
     (if truthy (date ev)
      then (case date ev of
              JStr s \<Rightarrow> Inr (strict_date t s)
            | _ \<Rightarrow> Inl TypeError)
      else Inr True)"

definition strictlyFilteredEvents :: "today \<Rightarrow> event list \<Rightarrow> error + event list" where
  "strictlyFilteredEvents t evs = filter_js (strictlyFiltered_keep t) evs"

section \<open>Reading parsed JSON\<close>

definition nullish :: "jsval \<Rightarrow> bool" where
  "nullish v = (v = JUndefined \<or> v = JNull)"

fun lookup :: "(string \<times> jsval) list \<Rightarrow> string \<Rightarrow> jsval" where
  "lookup [] k = JUndefined"
| "lookup ((k', v) # kvs) k = (if k' = k then v else lookup kvs k)"

definition getProp :: "jsval \<Rightarrow> string \<Rightarrow> jsval" where
  \<comment> \<open>\<open>v.k\<close> and \<open>v['k']\<close> for a value that is neither \<open>null\<close> nor \<open>undefined\<close> (there
      the source throws, and the callers test for that first) and a key that no
      prototype defines: an own property of an object, \<open>undefined\<close> otherwise\<close>
  "getProp v k = (case v of JObj kvs \<Rightarrow> lookup kvs k | _ \<Rightarrow> JUndefined)"

definition opt_prop :: "jsval \<Rightarrow> string \<Rightarrow> jsval" where
  \<comment> \<open>\<open>v?.k\<close>\<close>
  "opt_prop v k = (if nullish v then JUndefined else getProp v k)"

definition index0 :: "jsval \<Rightarrow> jsval" where
  \<comment> \<open>\<open>v[0]\<close> for a value that is neither \<open>null\<close> nor \<open>undefined\<close>\<close>
  "index0 v =
     (case v of
        JArr xs \<Rightarrow> (case xs of [] \<Rightarrow> JUndefined | x # _ \<Rightarrow> x)
      | JStr s \<Rightarrow> (case s of [] \<Rightarrow> JUndefined | c # _ \<Rightarrow> JStr [c])
      | JObj kvs \<Rightarrow> lookup kvs ''0''
      | _ \<Rightarrow> JUndefined)"

fun join_comma :: "string list \<Rightarrow> string" where
  "join_comma [] = []"
| "join_comma [x] = x"
| "join_comma (x # y # ys) = x @ '','' @ join_comma (y # ys)"

fun sequence_err :: "(error + 'a) list \<Rightarrow> error + 'a list" where
  \<comment> \<open>the results of a callback over a list, up to the first throw\<close>
  "sequence_err [] = Inr []"
| "sequence_err (x # xs) =
     (case x of
        Inl e \<Rightarrow> Inl e
      | Inr y \<Rightarrow> (case sequence_err xs of Inl e \<Rightarrow> Inl e | Inr ys \<Rightarrow> Inr (y # ys)))"

fun js_String :: "jsval \<Rightarrow> string" where
  \<comment> \<open>the conversion to a string of a template literal \<open>`${v}`\<close> and of a property key
      \<open>o[v]\<close>; an object that defines \<open>toString\<close> or \<open>valueOf\<close> itself is outside the model\<close>
  "js_String JUndefined = ''undefined''"
| "js_String JNull = ''null''"
| "js_String (JBool b) = (if b then ''true'' else ''false'')"
| "js_String (JNum printed) = printed"
| "js_String (JStr s) = s"
| "js_String (JArr xs) =
     join_comma (map (\<lambda>x. if x = JUndefined \<or> x = JNull then [] else js_String x) xs)"
| "js_String (JObj kvs) = ''[object Object]''"

definition Date_of :: "runtime \<Rightarrow> jsval \<Rightarrow> jsdate" where
  \<comment> \<open>\<open>new Date(v)\<close>: an array or an object is converted to a string first\<close>
  "Date_of rt v =
     (case v of
        JArr xs \<Rightarrow> new_Date rt (JStr (js_String v))
      | JObj kvs \<Rightarrow> new_Date rt (JStr (js_String v))
      | _ \<Rightarrow> new_Date rt v)"

definition sameDay :: "today \<Rightarrow> jsdate \<Rightarrow> bool" where
  \<comment> \<open>\<open>dateObj.getDate() === todayDate && dateObj.getMonth() === todayMonth - 1 &&
      dateObj.getFullYear() === todayYear\<close>\<close>
  "sameDay t dateObj =
     (case civil dateObj of
        None \<Rightarrow> False
      | Some (fullYear, month, dayOfMonth) \<Rightarrow>
          dayOfMonth = int (todayDate t) \<and> month = monthIndex t \<and> fullYear = todayYear t)"

section \<open>Sources, pages and containers\<close>

text \<open>
  A row of \<open>sources.csv\<close>. Every field is a string, and the source reads an empty string
  and a missing column alike (\<open>!source.container_selector\<close>, \<open>event.region || ...\<close>).
\<close>

record source_info =
  source :: string
  source_region :: string
  container_selector :: string
  title_selector :: string
  date_selector :: string
  time_selector :: string
  url_selector :: string
  extraction_type :: string

text \<open>
  What cheerio finds inside one element that matches the container selector, for the
  selectors of the source: the \<open>text()\<close> of each element that \<open>find(title_selector)\<close>
  matches, of each \<open>a\<close> below them, of each match of the date and of the time selector, and
  the \<open>attr('href')\<close> of each match of the url selector (\<open>None\<close> is \<open>undefined\<close>).
\<close>

record container =
  title_texts :: "string list"
  title_link_texts :: "string list"
  date_texts :: "string list"
  time_texts :: "string list"
  url_hrefs :: "string option list"

text \<open>
  What the regular expressions of the source, \<open>JSON.parse\<close> and cheerio give on the raw
  document: whether it contains \<open>window.__SERVER_DATA__\<close>; the match of the assignment
  (absent without a match, \<open>Some None\<close> when \<open>JSON.parse\<close> throws on it); the parse of
  each \<open>application/ld+json\<close> block in document order, \<open>None\<close> when \<open>JSON.parse\<close> throws,
  once as the Eventbrite branch reads the block (\<open>jsonLdMatches\<close>, the content as it
  stands) and once as the other branches read it (\<open>jsonLdTags\<close>, the content trimmed
  first); the parse of each \<open>application/json\<close> script tag; and the elements that match
  the container selector, where a selector that cheerio rejects throws, for the whole
  query or inside one container.
\<close>

record page =
  has_SERVER_DATA :: bool
  serverDataMatch :: "jsval option option"
  jsonLdMatches :: "jsval option list"
  jsonLdTags :: "jsval option list"
  scriptTags :: "jsval option list"
  containers :: "error + (error + container) list"

section \<open>Extraction from embedded JSON (extractEvents)\<close>

definition and_then :: "jsval \<Rightarrow> jsval \<Rightarrow> jsval" where
  \<comment> \<open>\<open>a && b\<close>\<close>
  "and_then a b = (if truthy a then b else a)"

fun forEach_push :: "(jsval \<Rightarrow> error + event option) \<Rightarrow> jsval list \<Rightarrow> event list
    \<Rightarrow> event list \<times> bool" where
  \<comment> \<open>\<open>xs.forEach(f)\<close> for a callback that returns early, pushes one record onto
      \<open>events\<close> as its last statement, or throws; the flag says that it threw, and the
      records pushed before stay in \<open>events\<close>\<close>
  "forEach_push f [] events = (events, False)"
| "forEach_push f (x # xs) events =
     (case f x of
        Inl e \<Rightarrow> (events, True)
      | Inr None \<Rightarrow> forEach_push f xs events
      | Inr (Some record) \<Rightarrow> forEach_push f xs (events @ [record]))"

definition forEach_value :: "(jsval \<Rightarrow> error + event option) \<Rightarrow> jsval \<Rightarrow> event list
    \<Rightarrow> event list \<times> bool" where
  \<comment> \<open>\<open>v.forEach(f)\<close>: a value that is not an array has no \<open>forEach\<close>\<close>
  "forEach_value f v events =
     (case v of JArr xs \<Rightarrow> forEach_push f xs events | _ \<Rightarrow> (events, True))"

definition date_text :: "jsdate option \<Rightarrow> jsval" where
  \<comment> \<open>\<open>dateObj ? dateObj.toLocaleDateString(...) : ''\<close>\<close>
  "date_text dateObj = (case dateObj of Some d \<Rightarrow> JStr (localeDate d) | None \<Rightarrow> JStr [])"

definition time_text :: "jsdate option \<Rightarrow> jsval" where
  \<comment> \<open>\<open>dateObj ? dateObj.toLocaleTimeString(...) : ''\<close>\<close>
  "time_text dateObj = (case dateObj of Some d \<Rightarrow> JStr (localeTime d) | None \<Rightarrow> JStr [])"

definition isToday_date :: "today \<Rightarrow> jsdate option \<Rightarrow> bool" where
  "isToday_date t dateObj = (case dateObj of Some d \<Rightarrow> sameDay t d | None \<Rightarrow> False)"

definition serverData_event :: "runtime \<Rightarrow> today \<Rightarrow> source_info \<Rightarrow> string \<Rightarrow> jsval
    \<Rightarrow> error + event option" where
  \<comment> \<open>the callback of \<open>eventResults.forEach\<close> (Eventbrite, SERVER_DATA); \<open>event.name\<close>
      throws when the element is \<open>null\<close>\<close>
  "serverData_event rt t src sourceUrl ev =
     (if nullish ev then Inl TypeError
      else if \<not> truthy (getProp ev ''name'') then Inr None
      else
        let dateObj =
              (if truthy (getProp ev ''start_date'')
               then Some (new_Date rt (JStr (js_String (getProp ev ''start_date'') @ ''T''
                            @ js_String (or_else (getProp ev ''start_time'') (JStr ''00:00'')))))
               else None);
            time' =
              (if truthy (getProp ev ''start_time'')
               then JStr (localeTime (new_Date rt
                            (JStr (''2000-01-01T'' @ js_String (getProp ev ''start_time'')))))
               else JStr [])
        in Inr (Some \<lparr>title = getProp ev ''name'',
                      date = date_text dateObj,
                      time = time',
                      url = getProp ev ''url'',
                      venue = or_else (opt_prop (getProp ev ''primary_venue'') ''name'')
                                (JStr (source src)),
                      region = source_region src,
                      source_url = sourceUrl,
                      is_today = isToday_date t dateObj\<rparr>))"

definition eventbrite_ld_event :: "runtime \<Rightarrow> today \<Rightarrow> source_info \<Rightarrow> string \<Rightarrow> jsval
    \<Rightarrow> error + event option" where
  \<comment> \<open>the callback of \<open>eventData.forEach\<close> (Eventbrite, ld+json)\<close>
  "eventbrite_ld_event rt t src sourceUrl ev =
     (if nullish ev then Inl TypeError
      else if \<not> truthy (getProp ev ''name'') then Inr None
      else
        let dateObj =
              (if truthy (getProp ev ''startDate'')
               then Some (Date_of rt (getProp ev ''startDate''))
               else if truthy (getProp ev ''datePublished'')
               then Some (Date_of rt (getProp ev ''datePublished''))
               else None)
        in Inr (Some \<lparr>title = getProp ev ''name'',
                      date = date_text dateObj,
                      time = time_text dateObj,
                      url = or_else (getProp ev ''url'') (opt_prop (getProp ev ''offers'') ''url''),
                      venue = or_else (opt_prop (getProp ev ''location'') ''name'')
                                (JStr (source src)),
                      region = source_region src,
                      source_url = sourceUrl,
                      is_today = isToday_date t dateObj\<rparr>))"

definition nextData_event :: "runtime \<Rightarrow> today \<Rightarrow> source_info \<Rightarrow> string \<Rightarrow> jsval
    \<Rightarrow> error + event option" where
  \<comment> \<open>the callback of \<open>path.forEach\<close> (Bandsintown, Next.js data)\<close>
  "nextData_event rt t src sourceUrl ev =
     (if nullish ev then Inl TypeError
      else
        let title' = or_else (or_else (or_else (getProp ev ''title'') (getProp ev ''name''))
                        (opt_prop (getProp ev ''artist'') ''name'')) (JStr [])
        in if \<not> truthy title' then Inr None
           else
             let dateObj =
                   (if truthy (getProp ev ''datetime'')
                    then Some (Date_of rt (getProp ev ''datetime''))
                    else if truthy (getProp ev ''date'')
                    then Some (Date_of rt (getProp ev ''date''))
                    else if truthy (getProp ev ''starts_at'')
                    then Some (Date_of rt (getProp ev ''starts_at''))
                    else None);
                 date' = (case dateObj of
                            Some d \<Rightarrow> JStr (localeDate d)
                          | None \<Rightarrow> or_else (getProp ev ''date_description'') (JStr []));
                 time' = (case dateObj of
                            Some d \<Rightarrow> JStr (localeTime d)
                          | None \<Rightarrow> or_else (getProp ev ''time_description'') (JStr []));
                 venue' = or_else (or_else (or_else (opt_prop (getProp ev ''venue'') ''name'')
                              (opt_prop (getProp ev ''location'') ''name''))
                              (opt_prop (getProp ev ''place'') ''name'')) (JStr []);
                 url' = or_else (or_else (or_else (or_else (getProp ev ''url'')
                            (getProp ev ''ticket_url''))
                            (opt_prop (getProp ev ''links'') ''tickets''))
                            (opt_prop (getProp ev ''links'') ''event'')) (JStr [])
             in Inr (Some \<lparr>title = title',
                           date = date',
                           time = time',
                           url = url',
                           venue = or_else venue' (JStr (source src)),
                           region = source_region src,
                           source_url = sourceUrl,
                           is_today = isToday_date t dateObj\<rparr>))"

definition schema_event :: "bool \<Rightarrow> runtime \<Rightarrow> today \<Rightarrow> source_info \<Rightarrow> string \<Rightarrow> jsval
    \<Rightarrow> error + event option" where
  \<comment> \<open>the callback of \<open>eventData.forEach\<close> for schema.org data, in the Bandsintown branch
      and in the generic branch; they differ in the offer that gives the url: the generic
      branch (flag true) reads \<open>offers.url\<close> when \<open>offers\<close> is not an array\<close>
  "schema_event generic rt t src sourceUrl ev =
     (if nullish ev then Inl TypeError
      else if \<not> truthy (getProp ev ''name'') then Inr None
      else
        let dateObj =
              (if truthy (getProp ev ''startDate'')
               then Some (Date_of rt (getProp ev ''startDate''))
               else None);
            venue' = or_else (opt_prop (getProp ev ''location'') ''name'') (JStr []);
            offers = getProp ev ''offers'';
            offer_url = (if generic
                         then (case offers of
                                 JArr xs \<Rightarrow> opt_prop (index0 offers) ''url''
                               | _ \<Rightarrow> getProp offers ''url'')
                         else opt_prop (index0 offers) ''url'');
            url' = or_else (or_else (getProp ev ''url'') (and_then offers offer_url)) (JStr [])
        in Inr (Some \<lparr>title = getProp ev ''name'',
                      date = date_text dateObj,
                      time = time_text dateObj,
                      url = url',
                      venue = or_else venue' (JStr (source src)),
                      region = source_region src,
                      source_url = sourceUrl,
                      is_today = isToday_date t dateObj\<rparr>))"

subsection \<open>Eventbrite\<close>

fun some_isEvent :: "jsval list \<Rightarrow> error + bool" where
  \<comment> \<open>\<open>parsedJson.some(item => item['@type'] === 'Event')\<close>, which throws at a \<open>null\<close>
      item that comes before the first event\<close>
  "some_isEvent [] = Inr False"
| "some_isEvent (item # rest) =
     (if nullish item then Inl TypeError
      else if getProp item ''@type'' = JStr ''Event'' then Inr True
      else some_isEvent rest)"

definition holds_event :: "jsval \<Rightarrow> bool" where
  \<comment> \<open>the test on \<open>parsedJson\<close>; a throw inside it is caught and the block is passed over\<close>
  "holds_event parsedJson =
     (truthy parsedJson
      \<and> (getProp parsedJson ''@type'' = JStr ''Event''
         \<or> (case parsedJson of JArr items \<Rightarrow> some_isEvent items = Inr True | _ \<Rightarrow> False)))"

fun first_event_block :: "jsval option list \<Rightarrow> jsval option" where
  \<comment> \<open>the loop over \<open>jsonLdMatches\<close> up to its \<open>break\<close>\<close>
  "first_event_block [] = None"
| "first_event_block (m # rest) =
     (case m of
        None \<Rightarrow> first_event_block rest
      | Some parsedJson \<Rightarrow>
          if holds_event parsedJson then Some parsedJson else first_event_block rest)"

definition eventbrite_jsonData :: "page \<Rightarrow> jsval" where
  "eventbrite_jsonData pg =
     (let serverData =
            (if has_SERVER_DATA pg
             then (case serverDataMatch pg of Some (Some parsed) \<Rightarrow> parsed | _ \<Rightarrow> JNull)
             else JNull)
      in if \<not> truthy serverData
         then (case first_event_block (jsonLdMatches pg) of
                 Some parsedJson \<Rightarrow> JObj [(''events'', parsedJson)]
               | None \<Rightarrow> serverData)
         else serverData)"

definition eventbrite_branch :: "runtime \<Rightarrow> today \<Rightarrow> source_info \<Rightarrow> string \<Rightarrow> page
    \<Rightarrow> event list \<Rightarrow> event list \<times> bool" where
  \<comment> \<open>the \<open>try\<close> block for Eventbrite: the records in \<open>events\<close> after it, and whether
      it returned them; a throw leaves the block with the records pushed so far\<close>
  "eventbrite_branch rt t src sourceUrl pg events =
     (let jsonData = eventbrite_jsonData pg
      in if truthy jsonData
         then
           let searchData = getProp jsonData ''search_data'';
               pushed =
                 (if truthy searchData \<and> truthy (getProp searchData ''events'')
                     \<and> truthy (getProp (getProp searchData ''events'') ''results'')
                  then forEach_value (serverData_event rt t src sourceUrl)
                         (getProp (getProp searchData ''events'') ''results'') events
                  else if truthy (getProp jsonData ''events'')
                  then forEach_push (eventbrite_ld_event rt t src sourceUrl)
                         (case getProp jsonData ''events'' of JArr xs \<Rightarrow> xs | v \<Rightarrow> [v]) events
                  else (events, False))
           in (fst pushed, \<not> snd pushed \<and> fst pushed \<noteq> [])
         else (events, False))"

subsection \<open>Bandsintown\<close>

datatype control = Return | Next | Thrown

definition query_data :: "jsval \<Rightarrow> error + jsval list" where
  \<comment> \<open>\<open>q => q.state?.data || []\<close>, as \<open>flatMap\<close> flattens its result\<close>
  "query_data q =
     (if nullish q then Inl TypeError
      else (case or_else (opt_prop (getProp q ''state'') ''data'') (JArr []) of
              JArr ys \<Rightarrow> Inr ys
            | v \<Rightarrow> Inr [v]))"

definition dehydrated_data :: "jsval \<Rightarrow> error + jsval" where
  \<comment> \<open>\<open>pageProps.dehydratedState?.queries?.flatMap(...)\<close>\<close>
  "dehydrated_data pageProps =
     (let dehydratedState = getProp pageProps ''dehydratedState''
      in if nullish dehydratedState then Inr JUndefined
         else
           let queries = getProp dehydratedState ''queries''
           in if nullish queries then Inr JUndefined
              else (case queries of
                      JArr qs \<Rightarrow>
                        (case sequence_err (map query_data qs) of
                           Inl e \<Rightarrow> Inl e
                         | Inr parts \<Rightarrow> Inr (JArr (concat parts)))
                    | _ \<Rightarrow> Inl TypeError))"

fun nextData_paths :: "runtime \<Rightarrow> today \<Rightarrow> source_info \<Rightarrow> string \<Rightarrow> jsval list
    \<Rightarrow> event list \<times> bool \<Rightarrow> (event list \<times> bool) \<times> control" where
  \<comment> \<open>the loop over \<open>paths\<close>; the state is \<open>events\<close> and \<open>foundEvents\<close>\<close>
  "nextData_paths rt t src sourceUrl [] st = (st, Next)"
| "nextData_paths rt t src sourceUrl (path # rest) st =
     (case path of
        JArr (first # others) \<Rightarrow>
          if nullish first then (st, Thrown)
          else if truthy (or_else (or_else (or_else (getProp first ''title'')
                    (getProp first ''name'')) (getProp first ''event_type''))
                    (getProp first ''venue''))
          then (case forEach_push (nextData_event rt t src sourceUrl) (first # others) (fst st) of
                  (events', threw) \<Rightarrow>
                    if threw then ((events', True), Thrown)
                    else if events' \<noteq> [] then ((events', True), Return)
                    else nextData_paths rt t src sourceUrl rest (events', True))
          else nextData_paths rt t src sourceUrl rest st
      | _ \<Rightarrow> nextData_paths rt t src sourceUrl rest st)"

definition nextData_tag :: "runtime \<Rightarrow> today \<Rightarrow> source_info \<Rightarrow> string \<Rightarrow> jsval option
    \<Rightarrow> event list \<times> bool \<Rightarrow> (event list \<times> bool) \<times> control" where
  \<comment> \<open>the \<open>try\<close> block for one script tag\<close>
  "nextData_tag rt t src sourceUrl tag st =
     (case tag of
        None \<Rightarrow> (st, Thrown)
      | Some jsonData \<Rightarrow>
          if nullish jsonData then (st, Thrown)
          else if truthy (getProp jsonData ''props'')
                  \<and> truthy (getProp (getProp jsonData ''props'') ''pageProps'')
          then
            let pageProps = getProp (getProp jsonData ''props'') ''pageProps''
            in (case dehydrated_data pageProps of
                  Inl e \<Rightarrow> (st, Thrown)
                | Inr flat \<Rightarrow>
                    nextData_paths rt t src sourceUrl
                      [getProp pageProps ''events'', getProp pageProps ''upcomingEvents'', flat] st)
          else (st, Next))"

fun nextData_tags :: "runtime \<Rightarrow> today \<Rightarrow> source_info \<Rightarrow> string \<Rightarrow> jsval option list
    \<Rightarrow> event list \<times> bool \<Rightarrow> (event list \<times> bool) \<times> control" where
  \<comment> \<open>the loop over \<open>scriptTags\<close>: a throw inside one tag is caught and the loop goes on\<close>
  "nextData_tags rt t src sourceUrl [] st = (st, Next)"
| "nextData_tags rt t src sourceUrl (tag # rest) st =
     (case nextData_tag rt t src sourceUrl tag st of
        (st', Return) \<Rightarrow> (st', Return)
      | (st', _) \<Rightarrow> nextData_tags rt t src sourceUrl rest st')"

definition bandsintown_eventData :: "jsval \<Rightarrow> error + jsval list option" where
  \<comment> \<open>\<open>eventData\<close> of the Bandsintown branch, \<open>None\<close> for \<open>null\<close>\<close>
  "bandsintown_eventData data =
     (if nullish data then Inl TypeError
      else if getProp data ''@type'' = JStr ''Event'' then Inr (Some [data])
      else (case data of
              JArr xs \<Rightarrow>
                if truthy (index0 data) \<and> getProp (index0 data) ''@type'' = JStr ''Event''
                then Inr (Some xs) else Inr None
            | _ \<Rightarrow> Inr None))"

fun schema_tags :: "runtime \<Rightarrow> today \<Rightarrow> source_info \<Rightarrow> string \<Rightarrow> jsval option list
    \<Rightarrow> event list \<times> bool \<Rightarrow> (event list \<times> bool) \<times> control" where
  \<comment> \<open>the loop over \<open>jsonLdTags\<close> in the Bandsintown branch\<close>
  "schema_tags rt t src sourceUrl [] st = (st, Next)"
| "schema_tags rt t src sourceUrl (tag # rest) st =
     (case tag of
        None \<Rightarrow> schema_tags rt t src sourceUrl rest st
      | Some data \<Rightarrow>
         (case bandsintown_eventData data of
            Inl e \<Rightarrow> schema_tags rt t src sourceUrl rest st
          | Inr None \<Rightarrow> schema_tags rt t src sourceUrl rest st
          | Inr (Some eventData) \<Rightarrow>
             (case forEach_push (schema_event False rt t src sourceUrl) eventData (fst st) of
                (events', threw) \<Rightarrow>
                  if \<not> threw \<and> events' \<noteq> [] then ((events', True), Return)
                  else schema_tags rt t src sourceUrl rest (events', True))))"

definition bandsintown_branch :: "runtime \<Rightarrow> today \<Rightarrow> source_info \<Rightarrow> string \<Rightarrow> page
    \<Rightarrow> event list \<Rightarrow> event list \<times> bool" where
  \<comment> \<open>the \<open>try\<close> block for Bandsintown: the records in \<open>events\<close> after it, and whether it
      returned them\<close>
  "bandsintown_branch rt t src sourceUrl pg events =
     (case nextData_tags rt t src sourceUrl (scriptTags pg) (events, False) of
        (st, Return) \<Rightarrow> (fst st, True)
      | (st, _) \<Rightarrow>
          if \<not> snd st
          then (case schema_tags rt t src sourceUrl (jsonLdTags pg) st of
                  (st', Return) \<Rightarrow> (fst st', True)
                | (st', _) \<Rightarrow> (fst st', False))
          else (fst st, False))"

subsection \<open>Generic JSON-LD\<close>

fun filter_isEvent :: "jsval list \<Rightarrow> error + jsval list" where
  \<comment> \<open>\<open>data['@graph'].filter(item => item['@type'] === 'Event')\<close>\<close>
  "filter_isEvent [] = Inr []"
| "filter_isEvent (item # rest) =
     (if nullish item then Inl TypeError
      else (case filter_isEvent rest of
              Inl e \<Rightarrow> Inl e
            | Inr found \<Rightarrow>
                Inr (if getProp item ''@type'' = JStr ''Event'' then item # found else found)))"

definition generic_eventData :: "jsval \<Rightarrow> error + jsval list option" where
  \<comment> \<open>\<open>eventData\<close> of the generic branch, \<open>None\<close> for \<open>null\<close>\<close>
  "generic_eventData data =
     (if nullish data then Inl TypeError
      else if getProp data ''@type'' = JStr ''Event'' then Inr (Some [data])
      else if (case data of JArr xs \<Rightarrow> True | _ \<Rightarrow> False) \<and> truthy (index0 data)
              \<and> getProp (index0 data) ''@type'' = JStr ''Event''
      then Inr (Some (case data of JArr xs \<Rightarrow> xs | _ \<Rightarrow> []))
      else (case getProp data ''@graph'' of
              JArr items \<Rightarrow> map_sum id Some (filter_isEvent items)
            | _ \<Rightarrow> Inr None))"

fun generic_tags :: "runtime \<Rightarrow> today \<Rightarrow> source_info \<Rightarrow> string \<Rightarrow> jsval option list
    \<Rightarrow> event list \<Rightarrow> event list \<times> bool" where
  \<comment> \<open>the loop over \<open>jsonLdTags\<close> in the generic branch: the records in \<open>events\<close> after
      it, and whether it returned them\<close>
  "generic_tags rt t src sourceUrl [] events = (events, False)"
| "generic_tags rt t src sourceUrl (tag # rest) events =
     (case tag of
        None \<Rightarrow> generic_tags rt t src sourceUrl rest events
      | Some data \<Rightarrow>
         (case generic_eventData data of
            Inl e \<Rightarrow> generic_tags rt t src sourceUrl rest events
          | Inr None \<Rightarrow> generic_tags rt t src sourceUrl rest events
          | Inr (Some eventData) \<Rightarrow>
              if eventData = [] then generic_tags rt t src sourceUrl rest events
              else (case forEach_push (schema_event True rt t src sourceUrl) eventData events of
                      (events', threw) \<Rightarrow>
                        if \<not> threw \<and> events' \<noteq> [] then (events', True)
                        else generic_tags rt t src sourceUrl rest events')))"

definition json_extraction :: "runtime \<Rightarrow> today \<Rightarrow> source_info \<Rightarrow> string \<Rightarrow> page
    \<Rightarrow> event list \<times> bool" where
  \<comment> \<open>the body of \<open>if (source.extraction_type === 'json')\<close>: \<open>events\<close> after it, and
      whether it returned them\<close>
  "json_extraction rt t src sourceUrl pg =
     (let eventbrite = (if source src = ''Eventbrite''
                        then eventbrite_branch rt t src sourceUrl pg []
                        else ([], False))
      in if snd eventbrite then eventbrite
         else
           let bandsintown = (if source src = ''Bandsintown''
                              then bandsintown_branch rt t src sourceUrl pg (fst eventbrite)
                              else (fst eventbrite, False))
           in if snd bandsintown then bandsintown
              else generic_tags rt t src sourceUrl (jsonLdTags pg) (fst bandsintown))"

section \<open>Extraction with the selectors (extractEvents, standard HTML extraction)\<close>

definition first_text :: "string list \<Rightarrow> string" where
  \<comment> \<open>\<open>.first().text()\<close>: the text of the first match, empty without a match\<close>
  "first_text texts = (case texts of [] \<Rightarrow> [] | text # _ \<Rightarrow> text)"

definition joined_text :: "string list \<Rightarrow> string" where
  \<comment> \<open>the non-empty trimmed texts of all matches,
      \<open>texts.join(' ').replace(/\s+/g, ' ').trim()\<close>\<close>
  "joined_text texts =
     trim (collapseSpaces (join_space (filter (\<lambda>text. text \<noteq> []) (map trim texts))))"

definition container_title :: "source_info \<Rightarrow> container \<Rightarrow> string" where
  "container_title src c =
     (if title_selector src \<noteq> []
      then
        let title' = trim (first_text (title_texts c))
        in if title' = [] \<and> length (title_link_texts c) \<noteq> 0
           then trim (first_text (title_link_texts c))
           else title'
      else [])"

definition container_url :: "runtime \<Rightarrow> source_info \<Rightarrow> string \<Rightarrow> container \<Rightarrow> string" where
  "container_url rt src sourceUrl c =
     (if url_selector src \<noteq> []
      then
        let url' = (case url_hrefs c of
                      [] \<Rightarrow> []
                    | href # _ \<Rightarrow> (case href of None \<Rightarrow> [] | Some h \<Rightarrow> h))
        in if url' \<noteq> [] \<and> \<not> startsWith url' ''http''
           then (case resolve_URL rt url' sourceUrl of Some absolute \<Rightarrow> absolute | None \<Rightarrow> url')
           else url'
      else [])"

definition container_event :: "runtime \<Rightarrow> today \<Rightarrow> source_info \<Rightarrow> string \<Rightarrow> container
    \<Rightarrow> event option" where
  \<comment> \<open>the body of the \<open>try\<close> block for one container: the record that it pushes, if any\<close>
  "container_event rt t src sourceUrl c =
     (let title' = container_title src c;
          date' = (if date_selector src \<noteq> [] then joined_text (date_texts c) else []);
          time' = (if time_selector src \<noteq> [] then joined_text (time_texts c) else []);
          venueNameFromHTML =
            (if source src = ''Songkick'' \<and> time_selector src \<noteq> []
             then trim (first_text (time_texts c)) else []);
          url' = container_url rt src sourceUrl c
      in if title' = [] \<or> length title' > 100 then None
         else
           let isToday = isToday_html t date'
           in if source src = ''Songkick''
              then Some \<lparr>title = JStr title',
                         date = JStr date',
                         time = JStr [],
                         url = JStr url',
                         venue = or_else (JStr venueNameFromHTML) (JStr (source src)),
                         region = source_region src,
                         source_url = sourceUrl,
                         is_today = isToday\<rparr>
              else Some \<lparr>title = JStr title',
                         date = JStr date',
                         time = JStr time',
                         url = JStr url',
                         venue = JStr (source src),
                         region = source_region src,
                         source_url = sourceUrl,
                         is_today = isToday\<rparr>)"

fun containers_each :: "runtime \<Rightarrow> today \<Rightarrow> source_info \<Rightarrow> string \<Rightarrow> nat
    \<Rightarrow> (error + container) list \<Rightarrow> event list \<Rightarrow> event list" where
  \<comment> \<open>\<open>containers.each(function(i) { ... })\<close> from index \<open>i\<close> on; a container in which a
      selector throws is caught and passed over\<close>
  "containers_each rt t src sourceUrl i [] events = events"
| "containers_each rt t src sourceUrl i (c # rest) events =
     containers_each rt t src sourceUrl (i + 1) rest
       (if i \<ge> 30 then events
        else (case c of
                Inl e \<Rightarrow> events
              | Inr found \<Rightarrow>
                 (case container_event rt t src sourceUrl found of
                    None \<Rightarrow> events
                  | Some record \<Rightarrow> events @ [record])))"

definition standard_extraction :: "runtime \<Rightarrow> today \<Rightarrow> source_info \<Rightarrow> string \<Rightarrow> page
    \<Rightarrow> event list \<Rightarrow> error + event list" where
  "standard_extraction rt t src sourceUrl pg events =
     (if container_selector src = [] then Inr events
      else (case containers pg of
              Inl e \<Rightarrow> Inl e
            | Inr found \<Rightarrow> Inr (containers_each rt t src sourceUrl 0 found events)))"

definition extractEvents :: "runtime \<Rightarrow> today \<Rightarrow> page \<Rightarrow> source_info \<Rightarrow> string
    \<Rightarrow> error + event list" where
  \<comment> \<open>\<open>extractEvents(html, source, sourceUrl)\<close>; \<open>Inl\<close> is an exception that leaves it\<close>
  "extractEvents rt t html src sourceUrl =
     (let json = (if extraction_type src = ''json''
                  then json_extraction rt t src sourceUrl html
                  else ([], False))
      in if snd json then Inr (fst json)
         else standard_extraction rt t src sourceUrl html (fst json))"

section \<open>Grouping by region and venue (processHtmlFiles, eventsByRegion)\<close>

text \<open>
  \<open>eventsByRegion\<close> is an object literal used as a dictionary, and so is the object of
  the venues of a region: besides the properties that the loop sets, a read finds those
  that every object inherits from \<open>Object.prototype\<close>. A \<open>grouping\<close> holds the
  properties that the loop has set.
\<close>

type_synonym grouping = "string \<rightharpoonup> (string \<rightharpoonup> event list)"

definition objectPrototype_keys :: "string list" where
  \<comment> \<open>the names of the properties of \<open>Object.prototype\<close>; the value of each is a
      function, that of \<open>__proto__\<close> is \<open>Object.prototype\<close> itself: all are truthy and
      none has a \<open>push\<close>\<close>
  "objectPrototype_keys =
     [''constructor'', ''__defineGetter__'', ''__defineSetter__'', ''hasOwnProperty'',
      ''__lookupGetter__'', ''__lookupSetter__'', ''isPrototypeOf'', ''propertyIsEnumerable'',
      ''toString'', ''valueOf'', ''__proto__'', ''toLocaleString'']"

datatype grouped =
    Grouped grouping    \<comment> \<open>the properties of \<open>eventsByRegion\<close> after the callback\<close>
  | Throws error        \<comment> \<open>the callback throws, which ends \<open>forEach\<close> and the report\<close>
  | Inherited           \<comment> \<open>the region key names a property of \<open>Object.prototype\<close>: the
                            callback reads and writes that built-in object, not
                            \<open>eventsByRegion\<close>, and what follows is not modelled\<close>

definition region_key :: "event \<Rightarrow> string" where
  \<comment> \<open>\<open>event.region || 'Other Areas'\<close>\<close>
  "region_key ev = (if region ev \<noteq> [] then region ev else ''Other Areas'')"

definition venue_key :: "event \<Rightarrow> string" where
  \<comment> \<open>\<open>event.venue || 'Unknown Venue'\<close>, as a property key\<close>
  "venue_key ev = js_String (or_else (venue ev) (JStr ''Unknown Venue''))"

definition group_event :: "grouping \<Rightarrow> event \<Rightarrow> grouped" where
  \<comment> \<open>the callback of \<open>forEach\<close>. \<open>eventsByRegion[region]\<close> is the own property, or else
      the inherited one, which is truthy, so that no object is made for the region.
      \<open>eventsByRegion[region][venue]\<close> is the own array, or else the inherited value, which
      is truthy, so that no array is made and \<open>.push\<close> is not a function\<close>
  "group_event eventsByRegion ev =
     (let region' = region_key ev;
          venue' = venue_key ev
      in case eventsByRegion region' of
           Some venues \<Rightarrow>
             (case venues venue' of
                Some bucket \<Rightarrow>
                  Grouped (eventsByRegion(region' \<mapsto> venues(venue' \<mapsto> bucket @ [ev])))
              | None \<Rightarrow>
                  if venue' \<in> set objectPrototype_keys then Throws TypeError
                  else Grouped (eventsByRegion(region' \<mapsto> venues(venue' \<mapsto> [ev]))))
         | None \<Rightarrow>
             if region' \<in> set objectPrototype_keys then Inherited
             else if venue' \<in> set objectPrototype_keys then Throws TypeError
             else Grouped (eventsByRegion(region' \<mapsto> [venue' \<mapsto> [ev]])))"

fun group_events :: "grouping \<Rightarrow> event list \<Rightarrow> grouped" where
  \<comment> \<open>\<open>extractedEvents.forEach(event => { ... })\<close>\<close>
  "group_events g [] = Grouped g"
| "group_events g (ev # evs) =
     (case group_event g ev of
        Grouped g' \<Rightarrow> group_events g' evs
      | Throws e \<Rightarrow> Throws e
      | Inherited \<Rightarrow> Inherited)"

definition eventsByRegion :: "event list \<Rightarrow> grouped" where
  "eventsByRegion evs = group_events Map.empty evs"

definition bucket_of :: "grouping \<Rightarrow> string \<Rightarrow> string \<Rightarrow> event list option" where
  \<comment> \<open>the own array \<open>eventsByRegion[region][venue]\<close>, when both keys are there\<close>
  "bucket_of g r v = (case g r of None \<Rightarrow> None | Some venues \<Rightarrow> venues v)"

definition plain_keys :: "event \<Rightarrow> bool" where
  \<comment> \<open>neither key of the record names a property of \<open>Object.prototype\<close>\<close>
  "plain_keys ev =
     (region_key ev \<notin> set objectPrototype_keys \<and> venue_key ev \<notin> set objectPrototype_keys)"

section \<open>The specification's wording, for comparison\<close>

fun numberTokens :: "string \<Rightarrow> string \<Rightarrow> string list" where
  \<comment> \<open>the maximal runs of digits of a text, after the run read so far\<close>
  "numberTokens run [] = (if run = [] then [] else [run])"
| "numberTokens run (c # cs) =
     (if isDigit c then numberTokens (run @ [c]) cs
      else (if run = [] then [] else [run]) @ numberTokens [] cs)"

definition spec_other_days :: "today \<Rightarrow> string \<Rightarrow> nat list" where
  \<comment> \<open>the specification's day-of-month tokens other than the reference day: the numbers
      of the text from 1 to 31, each read as a whole, without the reference day\<close>
  "spec_other_days t dateText =
     filter (\<lambda>d. 1 \<le> d \<and> d \<le> 31 \<and> d \<noteq> todayDate t)
       (map (\<lambda>run. nat (Number_digits run)) (numberTokens [] dateText))"

fun spec_names_day :: "string \<Rightarrow> string \<Rightarrow> bool" where
  \<comment> \<open>the text has the month name \<open>p\<close>, a space and a day number as a whole token: the
      digits that follow \<open>p\<close> end there\<close>
  "spec_names_day [] p = False"
| "spec_names_day (c # cs) p =
     ((startsWith (c # cs) p
         \<and> (case drop (length p) (c # cs) of [] \<Rightarrow> True | x # _ \<Rightarrow> \<not> isDigit x))
      \<or> spec_names_day cs p)"

definition spec_strict_reason :: "today \<Rightarrow> string \<Rightarrow> bool" where
  \<comment> \<open>the specification's reasons for the strict pass to drop a record: the date text
      contains a weekday name that does not match the reference weekday, or a day of the
      month from 1 to 31 other than the reference day, as a token, next to a month name, a
      slash or a dot that matches the reference month ("May 12", "5/12", "5.12")\<close>
  "spec_strict_reason t dateText =
     (let lowerDate = toLowerCase dateText; m = toString (todayMonth t)
      in list_ex (\<lambda>i. i \<noteq> dayOfWeek t
                    \<and> (includes_str lowerDate (at_index dayNames (int i))
                       \<or> includes_str lowerDate (at_index shortDayNames (int i)))) [0..<7]
         \<or> list_ex (\<lambda>d. d \<noteq> todayDate t
                    \<and> (spec_names_day lowerDate
                          (at_index monthNames (monthIndex t) @ '' '' @ toString d)
                       \<or> spec_names_day lowerDate
                          (at_index shortMonthNames (monthIndex t) @ '' '' @ toString d)
                       \<or> testToken (m @ ''/'' @ toString d) lowerDate
                       \<or> testToken (m @ ''.'' @ toString d) lowerDate)) [1..<32])"

definition spec_bucket :: "event list \<Rightarrow> string \<Rightarrow> string \<Rightarrow> event list" where
  \<comment> \<open>a bucket of the grouping in the specification's words: the records of the flat list
      with that region key and venue key, in the order of the flat list\<close>
  "spec_bucket evs r v = filter (\<lambda>ev. region_key ev = r \<and> venue_key ev = v) evs"

definition isAlpha :: "char \<Rightarrow> bool" where
  "isAlpha c = (let n = (of_char c :: nat) in (65 \<le> n \<and> n \<le> 90) \<or> (97 \<le> n \<and> n \<le> 122))"

definition spec_absolute_url :: "string \<Rightarrow> bool" where
  \<comment> \<open>an absolute URL in the specification's sense: it starts with a scheme, a letter
      followed by letters, digits, \<open>+\<close>, \<open>-\<close> or \<open>.\<close>, and a colon\<close>
  "spec_absolute_url href =
     (let scheme = takeWhile (\<lambda>c. c \<noteq> CHR '':'') href
      in scheme \<noteq> [] \<and> length scheme < length href \<and> isAlpha (hd scheme)
         \<and> list_all (\<lambda>c. isAlpha c \<or> isDigit c \<or> c \<in> set ''+-.'') scheme)"

definition spec_record_url :: "runtime \<Rightarrow> string \<Rightarrow> string option list \<Rightarrow> string" where
  \<comment> \<open>the url of a record in the specification's words: the href of the first match; if
      present and not already absolute, resolved against the page URL; the original string
      when the resolution fails\<close>
  "spec_record_url rt sourceUrl hrefs =
     (case hrefs of
        Some href # others \<Rightarrow>
          if href \<noteq> [] \<and> \<not> spec_absolute_url href
          then (case resolve_URL rt href sourceUrl of Some absolute \<Rightarrow> absolute | None \<Rightarrow> href)
          else href
      | _ \<Rightarrow> [])"

section \<open>Concrete inputs\<close>

definition may_2_2025 :: today where
  \<comment> \<open>Friday, 2 May 2025\<close>
  "may_2_2025 = \<lparr>todayDate = 2, todayMonth = 5, todayYear = 2025, dayOfWeek = 5\<rparr>"

definition may_12_2025 :: today where
  \<comment> \<open>Monday, 12 May 2025\<close>
  "may_12_2025 = \<lparr>todayDate = 12, todayMonth = 5, todayYear = 2025, dayOfWeek = 1\<rparr>"

definition invalid_date :: jsdate where
  "invalid_date = \<lparr>civil = None, localeDate = ''Invalid Date'', localeTime = ''Invalid Date''\<rparr>"

definition example_runtime :: runtime where
  \<comment> \<open>a runtime that knows two date texts and one base URL, as V8 reads them\<close>
  "example_runtime =
     \<lparr>new_Date = (\<lambda>v.
        if v = JStr ''jan 2''
        then \<lparr>civil = Some (2001, 0, 2), localeDate = ''Tue, Jan 2'', localeTime = ''12:00 AM''\<rparr>
        else if v = JStr ''2025-05-02T20:00:00''
        then \<lparr>civil = Some (2025, 4, 2), localeDate = ''Fri, May 2'', localeTime = ''8:00 PM''\<rparr>
        else invalid_date),
      resolve_URL = (\<lambda>href base.
        if base = ''https://example.com/events/''
        then (if href = ''/show/123'' then Some ''https://example.com/show/123''
              else if href = ''httpdocs/show''
              then Some ''https://example.com/events/httpdocs/show''
              else None)
        else None)\<rparr>"

definition venue_source :: source_info where
  "venue_source =
     \<lparr>source = ''The Chapel'', source_region = ''SF'', container_selector = ''.event'',
      title_selector = ''.title'', date_selector = ''.date'', time_selector = ''.time'',
      url_selector = ''a'', extraction_type = ''standard''\<rparr>"

definition unselected_source :: source_info where
  "unselected_source =
     \<lparr>source = ''The Chapel'', source_region = ''SF'', container_selector = [],
      title_selector = [], date_selector = [], time_selector = [], url_selector = [],
      extraction_type = ''standard''\<rparr>"

definition eventbrite_source :: source_info where
  "eventbrite_source =
     \<lparr>source = ''Eventbrite'', source_region = ''SF'', container_selector = [],
      title_selector = [], date_selector = [], time_selector = [], url_selector = [],
      extraction_type = ''json''\<rparr>"

definition band_x_container :: container where
  "band_x_container =
     \<lparr>title_texts = ['' Band X ''], title_link_texts = [], date_texts = [''Fri'', ''May 2''],
      time_texts = [''8:00 PM''], url_hrefs = [Some ''/show/123'']\<rparr>"

definition untitled_container :: container where
  "untitled_container =
     \<lparr>title_texts = [''  ''], title_link_texts = [], date_texts = [''Fri May 2''],
      time_texts = [], url_hrefs = []\<rparr>"

definition may_12_container :: container where
  "may_12_container =
     \<lparr>title_texts = [''Band Z''], title_link_texts = [], date_texts = [''Fri May 12''],
      time_texts = [], url_hrefs = []\<rparr>"

definition httpdocs_container :: container where
  "httpdocs_container =
     \<lparr>title_texts = [''Band Y''], title_link_texts = [], date_texts = [],
      time_texts = [], url_hrefs = [Some ''httpdocs/show'']\<rparr>"

definition venue_page :: page where
  "venue_page =
     \<lparr>has_SERVER_DATA = False, serverDataMatch = None, jsonLdMatches = [], jsonLdTags = [],
      scriptTags = [],
      containers = Inr [Inr band_x_container, Inr untitled_container]\<rparr>"

definition band_x_record :: event where
  "band_x_record =
     \<lparr>title = JStr ''Band X'', date = JStr ''Fri May 2'', time = JStr ''8:00 PM'',
      url = JStr ''https://example.com/show/123'', venue = JStr ''The Chapel'', region = ''SF'',
      source_url = ''https://example.com/events/'', is_today = True\<rparr>"

definition band_y_record :: event where
  "band_y_record =
     \<lparr>title = JStr ''Band Y'', date = JStr [], time = JStr [],
      url = JStr ''httpdocs/show'', venue = JStr ''The Chapel'', region = ''SF'',
      source_url = ''https://example.com/events/'', is_today = False\<rparr>"

definition band_z_record :: event where
  "band_z_record =
     \<lparr>title = JStr ''Band Z'', date = JStr ''Fri May 12'', time = JStr [],
      url = JStr [], venue = JStr ''The Chapel'', region = ''SF'',
      source_url = ''https://example.com/events/'', is_today = True\<rparr>"

definition long_name :: string where
  "long_name = replicate 101 (CHR ''a'')"

definition long_name_page :: page where
  \<comment> \<open>a page whose \<open>window.__SERVER_DATA__\<close> holds one event with a name of 101 characters\<close>
  "long_name_page =
     \<lparr>has_SERVER_DATA = True,
      serverDataMatch = Some (Some (JObj [(''search_data'',
        JObj [(''events'', JObj [(''results'', JArr [JObj [(''name'', JStr long_name)]])])])])),
      jsonLdMatches = [], jsonLdTags = [], scriptTags = [], containers = Inr []\<rparr>"

definition long_name_record :: event where
  "long_name_record =
     \<lparr>title = JStr long_name, date = JStr [], time = JStr [], url = JUndefined,
      venue = JStr ''Eventbrite'', region = ''SF'',
      source_url = ''https://www.eventbrite.com/d/ca--san-francisco/music/'', is_today = False\<rparr>"

definition friday_record :: event where
  "friday_record =
     \<lparr>title = JStr ''Band X'', date = JStr ''Friday, May 2'', time = JStr [], url = JStr [],
      venue = JStr ''The Chapel'', region = ''SF'', source_url = ''https://example.com/events/'',
      is_today = True\<rparr>"

definition dated_record :: "string \<Rightarrow> event" where
  \<comment> \<open>a record that extraction has marked as today, with the given date text\<close>
  "dated_record dateText =
     \<lparr>title = JStr ''Band X'', date = JStr dateText, time = JStr [], url = JStr [],
      venue = JStr ''The Chapel'', region = ''SF'', source_url = ''https://example.com/events/'',
      is_today = True\<rparr>"

definition venue_name_page :: "jsval \<Rightarrow> page" where
  \<comment> \<open>a page whose \<open>window.__SERVER_DATA__\<close> holds one event, at a venue with the given
      \<open>name\<close>\<close>
  "venue_name_page venueName =
     \<lparr>has_SERVER_DATA = True,
      serverDataMatch = Some (Some (JObj [(''search_data'',
        JObj [(''events'', JObj [(''results'', JArr [JObj [(''name'', JStr ''Band V''),
          (''primary_venue'', JObj [(''name'', venueName)])]])])])])),
      jsonLdMatches = [], jsonLdTags = [], scriptTags = [], containers = Inr []\<rparr>"

definition band_v_record :: "jsval \<Rightarrow> event" where
  "band_v_record venueName =
     \<lparr>title = JStr ''Band V'', date = JStr [], time = JStr [], url = JUndefined,
      venue = venueName, region = ''SF'',
      source_url = ''https://www.eventbrite.com/d/ca--san-francisco/music/'', is_today = False\<rparr>"

definition nowhere_record :: event where
  \<comment> \<open>a record without region and venue\<close>
  "nowhere_record =
     \<lparr>title = JStr ''Band W'', date = JStr [], time = JStr [], url = JStr [],
      venue = JStr [], region = [], source_url = ''https://example.com/events/'',
      is_today = False\<rparr>"

section \<open>Evaluation of the texts and names\<close>

lemma toString_2: "toString 2 = ''2''"
  by (simp add: toString.simps digitChar_def)

lemmas name_defs = dayNames_def shortDayNames_def monthNames_def shortMonthNames_def
  at_index_def monthIndex_def

section \<open>The strict pass as a property of the date text\<close>

lemma otherDayName_iff:
  "otherDayName t s idxs = (\<exists>i\<in>set idxs. i \<noteq> dayOfWeek t
      \<and> (includes_str s (at_index dayNames (int i)) \<or> includes_str s (at_index shortDayNames (int i))))"
  by (induction idxs) auto

lemma otherDateLoop_iff:
  "otherDateLoop t s ds = (\<exists>d\<in>set ds. mentionsDate t s d)"
  by (induction ds) auto

lemma set_otherDates: "set (otherDates t) = {d. 1 \<le> d \<and> d \<le> 31 \<and> d \<noteq> todayDate t}"
  by (auto simp: otherDates_def image_iff)

lemma strict_date_iff:
  "strict_date t dateText =
     (\<not> ((\<exists>i<7. i \<noteq> dayOfWeek t
            \<and> (includes_str (toLowerCase dateText) (dayNames ! i)
               \<or> includes_str (toLowerCase dateText) (shortDayNames ! i)))
         \<or> (\<exists>d\<in>{1..31}. d \<noteq> todayDate t
            \<and> (includes_str (toLowerCase dateText) ('' '' @ toString d)
               \<or> includes_str (toLowerCase dateText) (toString d @ '','')
               \<or> testToken (toString (todayMonth t) @ ''/'' @ toString d) (toLowerCase dateText)
               \<or> testToken (toString (todayMonth t) @ ''.'' @ toString d) (toLowerCase dateText)))))"
proof -
  have len: "length dayNames = 7" "length shortDayNames = 7"
    by (simp_all add: dayNames_def shortDayNames_def)
  have A: "otherDayName t (toLowerCase dateText) [0..<length dayNames] =
      (\<exists>i<7. i \<noteq> dayOfWeek t
            \<and> (includes_str (toLowerCase dateText) (dayNames ! i)
               \<or> includes_str (toLowerCase dateText) (shortDayNames ! i)))"
    unfolding otherDayName_iff using len by (auto simp: at_index_def)
  have B: "otherDateLoop t (toLowerCase dateText) (otherDates t) =
      (\<exists>d\<in>{1..31}. d \<noteq> todayDate t
            \<and> (includes_str (toLowerCase dateText) ('' '' @ toString d)
               \<or> includes_str (toLowerCase dateText) (toString d @ '','')
               \<or> testToken (toString (todayMonth t) @ ''/'' @ toString d) (toLowerCase dateText)
               \<or> testToken (toString (todayMonth t) @ ''.'' @ toString d) (toLowerCase dateText)))"
    unfolding otherDateLoop_iff set_otherDates mentionsDate_def by auto
  show ?thesis
    unfolding strict_date_def Let_def A B by auto
qed

lemma strict_date_fields:
  assumes "todayDate t = todayDate t'" and "todayMonth t = todayMonth t'"
    and "dayOfWeek t = dayOfWeek t'"
  shows "strict_date t dateText = strict_date t' dateText"
  unfolding strict_date_iff using assms by simp

lemma strictlyFiltered_keep_text:
  assumes "date ev = JStr dateText" and "dateText \<noteq> []"
  shows "strictlyFiltered_keep t ev = Inr (strict_date t dateText)"
  using assms by (simp add: strictlyFiltered_keep_def)

lemma strict_date_friday_may_2: "strict_date may_2_2025 ''Friday, May 2''"
  by code_simp

lemma container_event_is_today:
  assumes "container_event rt t src sourceUrl c = Some ev"
  shows "\<exists>d. date ev = JStr d \<and> is_today ev = isToday_html t d"
  using assms by (auto simp: container_event_def Let_def split: if_splits)

text \<open>
  Claim C10. The day-of-month check at extraction is substring containment: with the
  reference day 2 in May, the date text "Fri May 12" contains "2" and the month name, so
  the classifier answers true and every record that the selectors extract with this date
  text is marked as today, although the text names another day.
\<close>

theorem substring_day_marks_today:
  assumes "todayDate t = 2" and "todayMonth t = 5"
  shows "isToday_html t ''Fri May 12''
    \<and> (\<forall>rt src sourceUrl c ev.
          container_event rt t src sourceUrl c = Some ev \<and> date ev = JStr ''Fri May 12''
          \<longrightarrow> is_today ev)"
proof -
  have today: "isToday_html t ''Fri May 12''"
    using assms
    by (simp add: isToday_html_def toLowerCase_def lowerChar_def name_defs toString_2)
  have "is_today ev"
    if "container_event rt t src sourceUrl c = Some ev" and "date ev = JStr ''Fri May 12''"
    for rt src sourceUrl c ev
    using container_event_is_today[OF that(1)] that(2) today by auto
  with today show ?thesis by blast
qed

theorem substring_day_marks_today_witness:
  "todayDate may_2_2025 = 2 \<and> todayMonth may_2_2025 = 5
   \<and> container_event example_runtime may_2_2025 venue_source ''https://example.com/events/''
       may_12_container = Some band_z_record
   \<and> date band_z_record = JStr ''Fri May 12''
   \<and> isToday_html may_2_2025 ''Fri May 12'' \<and> is_today band_z_record"
proof -
  have d: "todayDate may_2_2025 = 2" and m: "todayMonth may_2_2025 = 5"
    by (simp_all add: may_2_2025_def)
  have c: "container_event example_runtime may_2_2025 venue_source ''https://example.com/events/''
       may_12_container = Some band_z_record"
    by code_simp
  have t: "date band_z_record = JStr ''Fri May 12''"
    by (simp add: band_z_record_def)
  from substring_day_marks_today[OF d m] c t d m show ?thesis by blast
qed

text \<open>
  Claim C4. For the date text "Friday, May 2" and a reference date of 2 May: when the
  reference weekday is Friday, the classifier at extraction answers true, and the record
  so marked passes the filter for today's events and the strict pass; when the reference
  weekday is not Friday, the strict pass drops the record, because its loop over the
  weekday names finds one that is not today's.
\<close>

theorem friday_may_2_by_weekday:
  assumes "todayDate t = 2" and "todayMonth t = 5" and "date ev = JStr ''Friday, May 2''"
  shows "(dayOfWeek t = 5 \<longrightarrow>
            isToday_html t ''Friday, May 2''
            \<and> todaysEvents_keep rt t (ev\<lparr>is_today := isToday_html t ''Friday, May 2''\<rparr>) = Inr True
            \<and> strictlyFiltered_keep t ev = Inr True)
    \<and> (dayOfWeek t \<noteq> 5 \<longrightarrow>
            otherDayName t (toLowerCase ''Friday, May 2'') [0..<length dayNames]
            \<and> strictlyFiltered_keep t ev = Inr False)"
proof -
  have keep: "strictlyFiltered_keep t ev = Inr (strict_date t ''Friday, May 2'')"
    using assms(3) by (simp add: strictlyFiltered_keep_text)
  have today: "isToday_html t ''Friday, May 2''"
    using assms(1,2)
    by (simp add: isToday_html_def toLowerCase_def lowerChar_def name_defs toString_2)
  then have report: "todaysEvents_keep rt t (ev\<lparr>is_today := isToday_html t ''Friday, May 2''\<rparr>)
      = Inr True"
    by (simp add: todaysEvents_keep_def)
  have friday: "strict_date t ''Friday, May 2''" if "dayOfWeek t = 5"
  proof -
    have "strict_date t ''Friday, May 2'' = strict_date may_2_2025 ''Friday, May 2''"
      using assms(1,2) that by (intro strict_date_fields) (simp_all add: may_2_2025_def)
    with strict_date_friday_may_2 show ?thesis by simp
  qed
  have other: "otherDayName t (toLowerCase ''Friday, May 2'') [0..<length dayNames]"
    if "dayOfWeek t \<noteq> 5"
    using that by (simp add: toLowerCase_def lowerChar_def name_defs upt_rec)
  then have "\<not> strict_date t ''Friday, May 2''" if "dayOfWeek t \<noteq> 5"
    using that by (simp add: strict_date_def)
  with keep today report friday other show ?thesis by simp
qed

theorem friday_may_2_by_weekday_witness:
  "date friday_record = JStr ''Friday, May 2''
   \<and> isToday_html may_2_2025 ''Friday, May 2''
   \<and> todaysEvents_keep example_runtime may_2_2025
        (friday_record\<lparr>is_today := isToday_html may_2_2025 ''Friday, May 2''\<rparr>) = Inr True
   \<and> strictlyFiltered_keep may_2_2025 friday_record = Inr True
   \<and> strictlyFiltered_keep (may_2_2025\<lparr>dayOfWeek := 4\<rparr>) friday_record = Inr False"
proof -
  have ev: "date friday_record = JStr ''Friday, May 2''"
    by (simp add: friday_record_def)
  have fri: "todayDate may_2_2025 = 2" "todayMonth may_2_2025 = 5" "dayOfWeek may_2_2025 = 5"
    by (simp_all add: may_2_2025_def)
  have thu: "todayDate (may_2_2025\<lparr>dayOfWeek := 4\<rparr>) = 2"
    "todayMonth (may_2_2025\<lparr>dayOfWeek := 4\<rparr>) = 5"
    "dayOfWeek (may_2_2025\<lparr>dayOfWeek := 4\<rparr>) \<noteq> 5"
    by (simp_all add: may_2_2025_def)
  from friday_may_2_by_weekday[OF fri(1,2) ev, where rt = example_runtime] fri(3)
  have friday: "isToday_html may_2_2025 ''Friday, May 2''
      \<and> todaysEvents_keep example_runtime may_2_2025
          (friday_record\<lparr>is_today := isToday_html may_2_2025 ''Friday, May 2''\<rparr>) = Inr True
      \<and> strictlyFiltered_keep may_2_2025 friday_record = Inr True"
    by blast
  from friday_may_2_by_weekday[OF thu(1,2) ev, where rt = example_runtime] thu(3)
  have thursday: "strictlyFiltered_keep (may_2_2025\<lparr>dayOfWeek := 4\<rparr>) friday_record = Inr False"
    by blast
  from ev friday thursday show ?thesis by blast
qed

section \<open>The filters on concrete texts\<close>

lemma may_2_2025_is_friday: "(daysFromCivil 2025 5 2 + 4) mod 7 = int (dayOfWeek may_2_2025)"
  by code_simp

lemma slash_5_2: "isToday_html may_2_2025 ''5/2'' = False \<and> todaysEvents_date rt may_2_2025 ''5/2''"
  by code_simp

lemma slash_5_12:
  "isToday_html may_2_2025 ''5/12'' = False \<and> todaysEvents_date rt may_2_2025 ''5/12'' = False"
  by code_simp

lemma jan_2_parsed:
  "isToday_html may_2_2025 ''Jan 2'' = False
   \<and> todaysEvents_date rt may_2_2025 ''Jan 2'' =
       (case civil (new_Date rt (JStr ''jan 2'')) of
          None \<Rightarrow> False
        | Some c \<Rightarrow> isMatchingDate may_2_2025 c)"
  unfolding may_2_2025_def by code_simp

lemma may_2_2025_month: "isMatchingDate may_2_2025 (y, m, d) \<Longrightarrow> m = 4"
  by (simp add: isMatchingDate_def may_2_2025_def monthIndex_def)

text \<open>
  Claim C3. With the reference date Friday, 2 May 2025, a record that the selectors
  extracted with the date text "5/2" passes the filter for today's events (the whole-token
  match of month/day); one with "5/12" does not, and one with "Jan 2" does not, the runtime
  reading "Jan 2" as no day of May.
\<close>

theorem report_dates_5_2:
  assumes "\<forall>y d. civil (new_Date rt (JStr ''jan 2'')) \<noteq> Some (y, 4, d)"
  shows "todaysEvents_keep rt may_2_2025
           (ev\<lparr>date := JStr ''5/2'', is_today := isToday_html may_2_2025 ''5/2''\<rparr>) = Inr True
    \<and> todaysEvents_keep rt may_2_2025
           (ev\<lparr>date := JStr ''5/12'', is_today := isToday_html may_2_2025 ''5/12''\<rparr>) = Inr False
    \<and> todaysEvents_keep rt may_2_2025
           (ev\<lparr>date := JStr ''Jan 2'', is_today := isToday_html may_2_2025 ''Jan 2''\<rparr>) = Inr False"
proof -
  have jan: "todaysEvents_date rt may_2_2025 ''Jan 2'' = False"
  proof (cases "civil (new_Date rt (JStr ''jan 2''))")
    case None
    with jan_2_parsed[of rt] show ?thesis by simp
  next
    case (Some c)
    obtain y m d where c: "c = (y, m, d)" by (cases c)
    with Some assms have "m \<noteq> 4" by auto
    with may_2_2025_month[of y m d] have "\<not> isMatchingDate may_2_2025 c" using c by auto
    with jan_2_parsed[of rt] Some show ?thesis by simp
  qed
  show ?thesis
    using slash_5_2[of rt] slash_5_12[of rt] jan_2_parsed[of rt] jan
    by (simp add: todaysEvents_keep_def)
qed

theorem report_dates_5_2_witness:
  "civil (new_Date example_runtime (JStr ''jan 2'')) = Some (2001, 0, 2)
   \<and> todaysEvents_keep example_runtime may_2_2025
        (band_x_record\<lparr>date := JStr ''5/2'', is_today := isToday_html may_2_2025 ''5/2''\<rparr>)
      = Inr True
   \<and> todaysEvents_keep example_runtime may_2_2025
        (band_x_record\<lparr>date := JStr ''5/12'', is_today := isToday_html may_2_2025 ''5/12''\<rparr>)
      = Inr False
   \<and> todaysEvents_keep example_runtime may_2_2025
        (band_x_record\<lparr>date := JStr ''Jan 2'', is_today := isToday_html may_2_2025 ''Jan 2''\<rparr>)
      = Inr False"
proof -
  have jan: "civil (new_Date example_runtime (JStr ''jan 2'')) = Some (2001, 0, 2)"
    by (simp add: example_runtime_def)
  then have "\<forall>y d. civil (new_Date example_runtime (JStr ''jan 2'')) \<noteq> Some (y, 4, d)"
    by simp
  from report_dates_5_2[OF this, of band_x_record] jan show ?thesis by simp
qed

text \<open>
  Claim C2. The strict pass is there to drop a record whose date text names another day
  ("Skip events that explicitly mention a date that's not today"): the name of a weekday
  that is not the reference weekday, or another day of the month with the reference month
  ("Look for patterns like "May 12" or "5/12" or "5.12""). The claim says so, and the two
  regular expressions of the loop over the other days do so. The two tests before them
  do not: they look for a space and the number, and for the number and a comma, with no
  month and without asking where the number ends. So the pass drops records that name no
  other day. On Friday, 2 May 2025 it drops the date text "May 2, 2025", the reference
  date itself, since the text has a space and 20; and "tonight 8pm", since it has a space
  and 8. On Monday, 12 May 2025 it drops "May 12", the reference date, since it has a
  space and 1. Each of these texts is classified as today at extraction and kept by the
  first filter, and none gives one of the claim's reasons: the first two have no number
  from 1 to 31 but the reference day, and the third has no name of a weekday or a month,
  no slash and no dot.
\<close>

theorem strict_pass_drops_reference_date:
  "isToday_html may_2_2025 ''May 2, 2025''
   \<and> todaysEvents_keep example_runtime may_2_2025 (dated_record ''May 2, 2025'') = Inr True
   \<and> strictlyFiltered_keep may_2_2025 (dated_record ''May 2, 2025'') = Inr False
   \<and> spec_strict_reason may_2_2025 ''May 2, 2025'' = False
   \<and> spec_other_days may_2_2025 ''May 2, 2025'' = []
   \<and> isToday_html may_12_2025 ''May 12''
   \<and> todaysEvents_keep example_runtime may_12_2025 (dated_record ''May 12'') = Inr True
   \<and> strictlyFiltered_keep may_12_2025 (dated_record ''May 12'') = Inr False
   \<and> spec_strict_reason may_12_2025 ''May 12'' = False
   \<and> spec_other_days may_12_2025 ''May 12'' = []
   \<and> isToday_html may_2_2025 ''tonight 8pm''
   \<and> todaysEvents_keep example_runtime may_2_2025 (dated_record ''tonight 8pm'') = Inr True
   \<and> strictlyFiltered_keep may_2_2025 (dated_record ''tonight 8pm'') = Inr False
   \<and> spec_strict_reason may_2_2025 ''tonight 8pm'' = False
   \<and> list_ex (includes_str (toLowerCase ''tonight 8pm''))
         (dayNames @ shortDayNames @ monthNames @ shortMonthNames) = False
   \<and> CHR ''/'' \<notin> set ''tonight 8pm'' \<and> CHR ''.'' \<notin> set ''tonight 8pm''
   \<and> strictlyFilteredEvents may_2_2025
        [dated_record ''May 2, 2025'', dated_record ''May 2'', dated_record ''tonight 8pm'']
      = Inr [dated_record ''May 2'']"
proof -
  have a: "isToday_html may_2_2025 ''May 2, 2025''"
    "isToday_html may_12_2025 ''May 12''"
    "isToday_html may_2_2025 ''tonight 8pm''"
    by code_simp+
  have b: "todaysEvents_keep example_runtime t (dated_record dateText) = Inr True"
    for t dateText
    by (simp add: todaysEvents_keep_def dated_record_def)
  have c: "strictlyFiltered_keep may_2_2025 (dated_record ''May 2, 2025'') = Inr False"
    "strictlyFiltered_keep may_12_2025 (dated_record ''May 12'') = Inr False"
    "strictlyFiltered_keep may_2_2025 (dated_record ''tonight 8pm'') = Inr False"
    by code_simp+
  have d: "spec_strict_reason may_2_2025 ''May 2, 2025'' = False"
    "spec_strict_reason may_12_2025 ''May 12'' = False"
    "spec_strict_reason may_2_2025 ''tonight 8pm'' = False"
    "spec_other_days may_2_2025 ''May 2, 2025'' = []"
    "spec_other_days may_12_2025 ''May 12'' = []"
    "list_ex (includes_str (toLowerCase ''tonight 8pm''))
         (dayNames @ shortDayNames @ monthNames @ shortMonthNames) = False"
    by code_simp+
  have e: "strictlyFilteredEvents may_2_2025
        [dated_record ''May 2, 2025'', dated_record ''May 2'', dated_record ''tonight 8pm'']
      = Inr [dated_record ''May 2'']"
    by code_simp
  from a b c d e show ?thesis by simp
qed

section \<open>Properties of every record that extraction pushes\<close>


lemma forEach_push_all:
  assumes "\<And>x ev. f x = Inr (Some ev) \<Longrightarrow> P ev"
    and "\<forall>ev\<in>set events. P ev"
  shows "\<forall>ev\<in>set (fst (forEach_push f xs events)). P ev"
  using assms(2)
proof (induction xs arbitrary: events)
  case Nil
  then show ?case by simp
next
  case (Cons x xs)
  show ?case
  proof (cases "f x")
    case (Inl e)
    with Cons.prems show ?thesis by simp
  next
    case (Inr r)
    show ?thesis
    proof (cases r)
      case None
      with Inr Cons show ?thesis by simp
    next
      case (Some ev)
      with Inr have "P ev" by (simp add: assms(1))
      with Cons.prems have "\<forall>e\<in>set (events @ [ev]). P e" by simp
      from Cons.IH[OF this] Inr Some show ?thesis by simp
    qed
  qed
qed

lemma forEach_value_all:
  assumes "\<And>x ev. f x = Inr (Some ev) \<Longrightarrow> P ev"
    and "\<forall>ev\<in>set events. P ev"
  shows "\<forall>ev\<in>set (fst (forEach_value f v events)). P ev"
  using forEach_push_all[of f P events, OF assms] assms(2)
  by (cases v) (simp_all add: forEach_value_def)

lemma eventbrite_branch_all:
  assumes "\<And>x ev. serverData_event rt t src sourceUrl x = Inr (Some ev) \<Longrightarrow> P ev"
    and "\<And>x ev. eventbrite_ld_event rt t src sourceUrl x = Inr (Some ev) \<Longrightarrow> P ev"
    and "\<forall>ev\<in>set events. P ev"
  shows "\<forall>ev\<in>set (fst (eventbrite_branch rt t src sourceUrl pg events)). P ev"
  using forEach_value_all[of "serverData_event rt t src sourceUrl" P events, OF assms(1) assms(3)]
    forEach_push_all[of "eventbrite_ld_event rt t src sourceUrl" P events, OF assms(2) assms(3)]
    assms(3)
  by (simp add: eventbrite_branch_def Let_def)

lemma nextData_paths_all:
  assumes "\<And>x ev. nextData_event rt t src sourceUrl x = Inr (Some ev) \<Longrightarrow> P ev"
    and "\<forall>ev\<in>set (fst st). P ev"
  shows "\<forall>ev\<in>set (fst (fst (nextData_paths rt t src sourceUrl paths st))). P ev"
  using assms(2)
proof (induction paths arbitrary: st)
  case Nil
  then show ?case by simp
next
  case (Cons path rest)
  note push = forEach_push_all[of "nextData_event rt t src sourceUrl" P "fst st", OF assms(1) Cons.prems]
  show ?case
  proof (cases path)
    case (JArr xs)
    show ?thesis
    proof (cases xs)
      case Nil
      with JArr Cons show ?thesis by simp
    next
      case inner: (Cons first others)
      obtain events' threw where fe:
        "forEach_push (nextData_event rt t src sourceUrl) (first # others) (fst st) = (events', threw)"
        by (cases "forEach_push (nextData_event rt t src sourceUrl) (first # others) (fst st)")
      with push[where xs = "first # others"] have ok: "\<forall>ev\<in>set events'. P ev" by simp
      then have "\<forall>ev\<in>set (fst (events', True)). P ev" by simp
      from Cons.IH[OF this] Cons.IH[OF Cons.prems] ok Cons.prems JArr inner fe
      show ?thesis by (simp del: forEach_push.simps)
    qed
  qed (use Cons in simp_all)
qed


lemma nextData_tag_all:
  assumes "\<And>x ev. nextData_event rt t src sourceUrl x = Inr (Some ev) \<Longrightarrow> P ev"
    and "\<forall>ev\<in>set (fst st). P ev"
  shows "\<forall>ev\<in>set (fst (fst (nextData_tag rt t src sourceUrl tag st))). P ev"
proof -
  have "\<forall>ev\<in>set (fst (fst (nextData_paths rt t src sourceUrl paths st))). P ev" for paths
    using assms(1) assms(2) by (rule nextData_paths_all)
  with assms(2) show ?thesis
    by (simp add: nextData_tag_def Let_def del: nextData_paths.simps
        split: option.splits sum.splits)
qed

lemma nextData_tags_all:
  assumes "\<And>x ev. nextData_event rt t src sourceUrl x = Inr (Some ev) \<Longrightarrow> P ev"
    and "\<forall>ev\<in>set (fst st). P ev"
  shows "\<forall>ev\<in>set (fst (fst (nextData_tags rt t src sourceUrl tags st))). P ev"
  using assms(2)
proof (induction tags arbitrary: st)
  case Nil
  then show ?case by simp
next
  case (Cons tag rest)
  obtain st' c where step: "nextData_tag rt t src sourceUrl tag st = (st', c)"
    by (cases "nextData_tag rt t src sourceUrl tag st")
  with nextData_tag_all[of rt t src sourceUrl P st tag, OF assms(1) Cons.prems]
  have ok: "\<forall>ev\<in>set (fst st'). P ev" by simp
  from Cons.IH[OF ok] ok step show ?case by (cases c) simp_all
qed

lemma schema_tags_all:
  assumes "\<And>x ev. schema_event False rt t src sourceUrl x = Inr (Some ev) \<Longrightarrow> P ev"
    and "\<forall>ev\<in>set (fst st). P ev"
  shows "\<forall>ev\<in>set (fst (fst (schema_tags rt t src sourceUrl tags st))). P ev"
  using assms(2)
proof (induction tags arbitrary: st)
  case Nil
  then show ?case by simp
next
  case (Cons tag rest)
  note push = forEach_push_all[of "schema_event False rt t src sourceUrl" P "fst st",
      OF assms(1) Cons.prems]
  show ?case
  proof (cases tag)
    case None
    with Cons show ?thesis by simp
  next
    case (Some data)
    show ?thesis
    proof (cases "bandsintown_eventData data")
      case (Inl e)
      with Some Cons show ?thesis by simp
    next
      case (Inr found)
      show ?thesis
      proof (cases found)
        case None
        with Inr Some Cons show ?thesis by simp
      next
        case inner: (Some eventData)
        obtain events' threw where fe:
          "forEach_push (schema_event False rt t src sourceUrl) eventData (fst st) = (events', threw)"
          by (cases "forEach_push (schema_event False rt t src sourceUrl) eventData (fst st)")
        with push[where xs = eventData] have ok: "\<forall>ev\<in>set events'. P ev" by simp
        then have "\<forall>ev\<in>set (fst (events', True)). P ev" by simp
        from Cons.IH[OF this] ok Inr Some inner fe show ?thesis by simp
      qed
    qed
  qed
qed

lemma bandsintown_branch_all:
  assumes "\<And>x ev. nextData_event rt t src sourceUrl x = Inr (Some ev) \<Longrightarrow> P ev"
    and "\<And>x ev. schema_event False rt t src sourceUrl x = Inr (Some ev) \<Longrightarrow> P ev"
    and "\<forall>ev\<in>set events. P ev"
  shows "\<forall>ev\<in>set (fst (bandsintown_branch rt t src sourceUrl pg events)). P ev"
proof -
  obtain st c where first:
    "nextData_tags rt t src sourceUrl (scriptTags pg) (events, False) = (st, c)"
    by (cases "nextData_tags rt t src sourceUrl (scriptTags pg) (events, False)")
  from assms(3) have "\<forall>ev\<in>set (fst (events, False)). P ev" by simp
  from nextData_tags_all[of rt t src sourceUrl P "(events, False)" "scriptTags pg", OF assms(1) this]
    first
  have ok: "\<forall>ev\<in>set (fst st). P ev" by simp
  obtain st' c' where second: "schema_tags rt t src sourceUrl (jsonLdTags pg) st = (st', c')"
    by (cases "schema_tags rt t src sourceUrl (jsonLdTags pg) st")
  with schema_tags_all[of rt t src sourceUrl P st "jsonLdTags pg", OF assms(2) ok]
  have ok': "\<forall>ev\<in>set (fst st'). P ev" by simp
  from ok ok' first second show ?thesis
    by (cases c; cases c') (simp_all add: bandsintown_branch_def)
qed

lemma generic_tags_all:
  assumes "\<And>x ev. schema_event True rt t src sourceUrl x = Inr (Some ev) \<Longrightarrow> P ev"
    and "\<forall>ev\<in>set events. P ev"
  shows "\<forall>ev\<in>set (fst (generic_tags rt t src sourceUrl tags events)). P ev"
  using assms(2)
proof (induction tags arbitrary: events)
  case Nil
  then show ?case by simp
next
  case (Cons tag rest)
  note push = forEach_push_all[of "schema_event True rt t src sourceUrl" P events,
      OF assms(1) Cons.prems]
  show ?case
  proof (cases tag)
    case None
    with Cons show ?thesis by simp
  next
    case (Some data)
    show ?thesis
    proof (cases "generic_eventData data")
      case (Inl e)
      with Some Cons show ?thesis by simp
    next
      case (Inr found)
      show ?thesis
      proof (cases found)
        case None
        with Inr Some Cons show ?thesis by simp
      next
        case inner: (Some eventData)
        obtain events' threw where fe:
          "forEach_push (schema_event True rt t src sourceUrl) eventData events = (events', threw)"
          by (cases "forEach_push (schema_event True rt t src sourceUrl) eventData events")
        with push[where xs = eventData] have ok: "\<forall>ev\<in>set events'. P ev" by simp
        from Cons.IH[OF ok] Cons.IH[OF Cons.prems] ok Inr Some inner fe show ?thesis by simp
      qed
    qed
  qed
qed

lemma json_extraction_all:
  assumes "\<And>x ev. serverData_event rt t src sourceUrl x = Inr (Some ev) \<Longrightarrow> P ev"
    and "\<And>x ev. eventbrite_ld_event rt t src sourceUrl x = Inr (Some ev) \<Longrightarrow> P ev"
    and "\<And>x ev. nextData_event rt t src sourceUrl x = Inr (Some ev) \<Longrightarrow> P ev"
    and "\<And>g x ev. schema_event g rt t src sourceUrl x = Inr (Some ev) \<Longrightarrow> P ev"
  shows "\<forall>ev\<in>set (fst (json_extraction rt t src sourceUrl pg)). P ev"
proof -
  define eb where "eb = (if source src = ''Eventbrite''
      then eventbrite_branch rt t src sourceUrl pg [] else ([], False))"
  have eb_ok: "\<forall>ev\<in>set (fst eb). P ev"
    using eventbrite_branch_all[of rt t src sourceUrl P "[]" pg, OF assms(1) assms(2)]
    by (simp add: eb_def)
  define bt where "bt = (if source src = ''Bandsintown''
      then bandsintown_branch rt t src sourceUrl pg (fst eb) else (fst eb, False))"
  have bt_ok: "\<forall>ev\<in>set (fst bt). P ev"
    using bandsintown_branch_all[of rt t src sourceUrl P "fst eb" pg, OF assms(3) assms(4) eb_ok] eb_ok
    by (simp add: bt_def)
  have gen_ok: "\<forall>ev\<in>set (fst (generic_tags rt t src sourceUrl (jsonLdTags pg) (fst bt))). P ev"
    by (rule generic_tags_all[OF assms(4) bt_ok])
  have "json_extraction rt t src sourceUrl pg =
      (if snd eb then eb else if snd bt then bt
       else generic_tags rt t src sourceUrl (jsonLdTags pg) (fst bt))"
    by (simp add: json_extraction_def Let_def eb_def bt_def)
  with eb_ok bt_ok gen_ok show ?thesis by simp
qed

lemma containers_each_all:
  assumes "\<And>c ev. container_event rt t src sourceUrl c = Some ev \<Longrightarrow> P ev"
    and "\<forall>ev\<in>set events. P ev"
  shows "\<forall>ev\<in>set (containers_each rt t src sourceUrl i cs events). P ev"
  using assms(2)
proof (induction cs arbitrary: i events)
  case Nil
  then show ?case by simp
next
  case (Cons c rest)
  have "\<forall>ev\<in>set (if i \<ge> 30 then events
        else (case c of Inl e \<Rightarrow> events
              | Inr found \<Rightarrow> (case container_event rt t src sourceUrl found of
                    None \<Rightarrow> events | Some record \<Rightarrow> events @ [record]))). P ev"
    using Cons.prems assms(1) by (auto split: sum.splits option.splits)
  from Cons.IH[OF this] show ?case by simp
qed

lemma extractEvents_all:
  assumes "\<And>x ev. serverData_event rt t src sourceUrl x = Inr (Some ev) \<Longrightarrow> P ev"
    and "\<And>x ev. eventbrite_ld_event rt t src sourceUrl x = Inr (Some ev) \<Longrightarrow> P ev"
    and "\<And>x ev. nextData_event rt t src sourceUrl x = Inr (Some ev) \<Longrightarrow> P ev"
    and "\<And>g x ev. schema_event g rt t src sourceUrl x = Inr (Some ev) \<Longrightarrow> P ev"
    and "\<And>c ev. container_event rt t src sourceUrl c = Some ev \<Longrightarrow> P ev"
    and "extractEvents rt t html src sourceUrl = Inr evs"
  shows "\<forall>ev\<in>set evs. P ev"
proof -
  define js where "js = (if extraction_type src = ''json''
      then json_extraction rt t src sourceUrl html else ([], False))"
  have js_ok: "\<forall>ev\<in>set (fst js). P ev"
    using json_extraction_all[of rt t src sourceUrl P html, OF assms(1-4)] by (simp add: js_def)
  have ex: "extractEvents rt t html src sourceUrl =
      (if snd js then Inr (fst js) else standard_extraction rt t src sourceUrl html (fst js))"
    by (simp add: extractEvents_def Let_def js_def)
  show ?thesis
  proof (cases "snd js")
    case True
    with ex assms(6) js_ok show ?thesis by simp
  next
    case False
    with ex assms(6) have "standard_extraction rt t src sourceUrl html (fst js) = Inr evs" by simp
    then show ?thesis
      using js_ok containers_each_all[of rt t src sourceUrl P "fst js", OF assms(5) js_ok]
      by (auto simp: standard_extraction_def split: if_splits sum.splits)
  qed
qed

section \<open>Titles\<close>

lemma serverData_event_title:
  "serverData_event rt t src sourceUrl x = Inr (Some ev) \<Longrightarrow> truthy (title ev)"
  by (auto simp: serverData_event_def Let_def split: if_splits)

lemma eventbrite_ld_event_title:
  "eventbrite_ld_event rt t src sourceUrl x = Inr (Some ev) \<Longrightarrow> truthy (title ev)"
  by (auto simp: eventbrite_ld_event_def Let_def split: if_splits)

lemma nextData_event_title:
  "nextData_event rt t src sourceUrl x = Inr (Some ev) \<Longrightarrow> truthy (title ev)"
  by (auto simp: nextData_event_def Let_def split: if_splits)

lemma schema_event_title:
  "schema_event g rt t src sourceUrl x = Inr (Some ev) \<Longrightarrow> truthy (title ev)"
  by (auto simp: schema_event_def Let_def split: if_splits)

lemma container_event_title:
  assumes "container_event rt t src sourceUrl c = Some ev"
  shows "title ev = JStr (container_title src c) \<and> container_title src c \<noteq> []
    \<and> length (container_title src c) \<le> 100"
  using assms by (auto simp: container_event_def Let_def split: if_splits)

lemma container_event_none:
  assumes "container_title src c = [] \<or> length (container_title src c) > 100"
  shows "container_event rt t src sourceUrl c = None"
  using assms by (auto simp: container_event_def Let_def)

lemma containers_each_appends:
  "containers_each rt t src sourceUrl i cs events =
     events @ containers_each rt t src sourceUrl i cs []"
proof (induction cs arbitrary: i events)
  case Nil
  then show ?case by simp
next
  case (Cons c rest)
  show ?case
    using Cons.IH[of "Suc i" "events @ [the (container_event rt t src sourceUrl (projr c))]"]
      Cons.IH[of "Suc i" events]
      Cons.IH[of "Suc i" "[the (container_event rt t src sourceUrl (projr c))]"]
    by (auto split: sum.splits option.splits)
qed

lemma standard_extraction_appends:
  assumes "standard_extraction rt t src sourceUrl html events = Inr evs"
  shows "\<exists>new. evs = events @ new
    \<and> (\<forall>ev\<in>set new. \<exists>s. title ev = JStr s \<and> s \<noteq> [] \<and> length s \<le> 100)"
proof (cases "container_selector src = []")
  case True
  with assms show ?thesis by (simp add: standard_extraction_def)
next
  case False
  with assms obtain found where found: "containers html = Inr found"
    and evs: "evs = containers_each rt t src sourceUrl 0 found events"
    by (auto simp: standard_extraction_def split: sum.splits)
  have "\<forall>ev\<in>set (containers_each rt t src sourceUrl 0 found []).
      \<exists>s. title ev = JStr s \<and> s \<noteq> [] \<and> length s \<le> 100"
    by (rule containers_each_all) (use container_event_title in \<open>auto\<close>)
  with evs containers_each_appends[of rt t src sourceUrl 0 found events] show ?thesis
    by blast
qed

text \<open>
  Claim C1, as the code has it. Every record that extraction returns has a title that is
  truthy, and a title that is a string is not empty. The limit of 100 characters belongs
  to the extraction with the selectors alone: the records it adds (all records of a source
  that is not of type \<open>json\<close>) have a string of 1 to 100 characters as their title, and a
  container whose title is empty or longer yields no record. The records read from
  embedded JSON have no limit on the length of the title.
\<close>

theorem titles_of_records:
  assumes "extractEvents rt t html src sourceUrl = Inr evs"
  shows "(\<forall>ev\<in>set evs. truthy (title ev) \<and> (\<forall>s. title ev = JStr s \<longrightarrow> s \<noteq> []))
    \<and> (extraction_type src \<noteq> ''json'' \<longrightarrow>
          (\<forall>ev\<in>set evs. \<exists>s. title ev = JStr s \<and> s \<noteq> [] \<and> length s \<le> 100))
    \<and> (\<forall>events evs'. standard_extraction rt t src sourceUrl html events = Inr evs' \<longrightarrow>
          (\<exists>new. evs' = events @ new
             \<and> (\<forall>ev\<in>set new. \<exists>s. title ev = JStr s \<and> s \<noteq> [] \<and> length s \<le> 100)))
    \<and> (\<forall>c. container_title src c = [] \<or> length (container_title src c) > 100 \<longrightarrow>
          container_event rt t src sourceUrl c = None)"
proof -
  have "\<forall>ev\<in>set evs. truthy (title ev)"
  proof (rule extractEvents_all[where P = "\<lambda>ev. truthy (title ev)", OF _ _ _ _ _ assms])
    show "\<And>c ev. container_event rt t src sourceUrl c = Some ev \<Longrightarrow> truthy (title ev)"
      using container_event_title by fastforce
  qed (fact serverData_event_title eventbrite_ld_event_title nextData_event_title
      schema_event_title)+
  then have all: "\<forall>ev\<in>set evs. truthy (title ev) \<and> (\<forall>s. title ev = JStr s \<longrightarrow> s \<noteq> [])"
    by auto
  have html: "\<forall>ev\<in>set evs. \<exists>s. title ev = JStr s \<and> s \<noteq> [] \<and> length s \<le> 100"
    if "extraction_type src \<noteq> ''json''"
  proof -
    from that assms have "standard_extraction rt t src sourceUrl html [] = Inr evs"
      by (simp add: extractEvents_def)
    from standard_extraction_appends[OF this] show ?thesis by simp
  qed
  from all html standard_extraction_appends container_event_none show ?thesis
    by blast
qed

theorem titles_of_records_witness:
  "extractEvents example_runtime may_2_2025 venue_page venue_source
       ''https://example.com/events/'' = Inr [band_x_record]
   \<and> truthy (title band_x_record)
   \<and> (\<exists>s. title band_x_record = JStr s \<and> s \<noteq> [] \<and> length s \<le> 100)
   \<and> container_title venue_source untitled_container = []
   \<and> container_event example_runtime may_2_2025 venue_source ''https://example.com/events/''
       untitled_container = None"
proof -
  have run: "extractEvents example_runtime may_2_2025 venue_page venue_source
       ''https://example.com/events/'' = Inr [band_x_record]"
    by code_simp
  have std: "extraction_type venue_source \<noteq> ''json''"
    by (simp add: venue_source_def)
  have empty: "container_title venue_source untitled_container = []"
    by code_simp
  from titles_of_records[OF run] std empty run show ?thesis by simp
qed

text \<open>
  Claim C1, as the specification states it, fails: for an Eventbrite page whose
  \<open>window.__SERVER_DATA__\<close> lists an event with a name of 101 characters, extraction
  returns a record with that title.
\<close>

theorem long_title_from_json:
  "extractEvents example_runtime may_2_2025 long_name_page eventbrite_source
       ''https://www.eventbrite.com/d/ca--san-francisco/music/'' = Inr [long_name_record]
   \<and> title long_name_record = JStr long_name
   \<and> length long_name = 101"
proof -
  have "extractEvents example_runtime may_2_2025 long_name_page eventbrite_source
       ''https://www.eventbrite.com/d/ca--san-francisco/music/'' = Inr [long_name_record]"
    by code_simp
  moreover have "title long_name_record = JStr long_name"
    by (simp add: long_name_record_def)
  moreover have "length long_name = 101"
    by (simp add: long_name_def)
  ultimately show ?thesis by simp
qed

section \<open>Venues\<close>










section \<open>The cap on the containers\<close>

lemma containers_each_beyond:
  "30 \<le> i \<Longrightarrow> containers_each rt t src sourceUrl i cs events = events"
  by (induction cs arbitrary: i) simp_all

lemma containers_each_append:
  "containers_each rt t src sourceUrl i (xs @ ys) events =
     containers_each rt t src sourceUrl (i + length xs) ys
       (containers_each rt t src sourceUrl i xs events)"
  by (induction xs arbitrary: i events) simp_all

lemma containers_each_take:
  "containers_each rt t src sourceUrl 0 cs events =
     containers_each rt t src sourceUrl 0 (take 30 cs) events"
proof (cases "length cs \<le> 30")
  case True
  then show ?thesis by simp
next
  case False
  then have len: "length (take 30 cs) = 30" by simp
  have "containers_each rt t src sourceUrl 0 (take 30 cs @ drop 30 cs) events =
      containers_each rt t src sourceUrl 0 (take 30 cs) events"
    unfolding containers_each_append len by (simp add: containers_each_beyond)
  then show ?thesis by simp
qed

lemma eventbrite_jsonData_containers:
  "eventbrite_jsonData (pg\<lparr>containers := x\<rparr>) = eventbrite_jsonData pg"
  by (simp add: eventbrite_jsonData_def Let_def cong: if_cong option.case_cong)

lemma eventbrite_branch_containers:
  "eventbrite_branch rt t src sourceUrl (pg\<lparr>containers := x\<rparr>) events =
   eventbrite_branch rt t src sourceUrl pg events"
  by (simp add: eventbrite_branch_def eventbrite_jsonData_containers)

lemma bandsintown_branch_containers:
  "bandsintown_branch rt t src sourceUrl (pg\<lparr>containers := x\<rparr>) events =
   bandsintown_branch rt t src sourceUrl pg events"
  by (simp add: bandsintown_branch_def cong: if_cong prod.case_cong control.case_cong)

lemma json_extraction_containers:
  "json_extraction rt t src sourceUrl (pg\<lparr>containers := x\<rparr>) =
   json_extraction rt t src sourceUrl pg"
  by (simp add: json_extraction_def eventbrite_branch_containers bandsintown_branch_containers
      Let_def cong: if_cong)

text \<open>
  Claim C5. The extraction with the selectors processes the first 30 elements that match
  the container selector and no other: whatever stands at index 30 or beyond, the result
  is the result for the first 30 elements alone.
\<close>

theorem container_cap:
  "extractEvents rt t (html\<lparr>containers := Inr cs\<rparr>) src sourceUrl =
   extractEvents rt t (html\<lparr>containers := Inr (take 30 cs)\<rparr>) src sourceUrl"
  using containers_each_take[of rt t src sourceUrl cs]
  by (simp add: extractEvents_def standard_extraction_def json_extraction_containers Let_def)

theorem container_cap_witness:
  "extractEvents example_runtime may_2_2025
      (venue_page\<lparr>containers := Inr (replicate 30 (Inr untitled_container) @ [Inr band_x_container])\<rparr>)
      venue_source ''https://example.com/events/'' = Inr []
   \<and> extractEvents example_runtime may_2_2025
      (venue_page\<lparr>containers := Inr (replicate 29 (Inr untitled_container) @ [Inr band_x_container])\<rparr>)
      venue_source ''https://example.com/events/'' = Inr [band_x_record]"
proof -
  have first: "take 30 (replicate 30 (Inr untitled_container) @ [Inr band_x_container])
      = (replicate 30 (Inr untitled_container) :: (error + container) list)"
    by simp
  have none: "extractEvents example_runtime may_2_2025
      (venue_page\<lparr>containers := Inr (replicate 30 (Inr untitled_container))\<rparr>)
      venue_source ''https://example.com/events/'' = Inr []"
    by code_simp
  have one: "extractEvents example_runtime may_2_2025
      (venue_page\<lparr>containers := Inr (replicate 29 (Inr untitled_container) @ [Inr band_x_container])\<rparr>)
      venue_source ''https://example.com/events/'' = Inr [band_x_record]"
    by code_simp
  from container_cap[where rt = example_runtime and t = may_2_2025 and html = venue_page
      and cs = "replicate 30 (Inr untitled_container) @ [Inr band_x_container]"
      and src = venue_source and sourceUrl = "''https://example.com/events/''"] first none one
  show ?thesis by simp
qed

section \<open>A source without a container selector\<close>

text \<open>
  Claim C6. For a source of type \<open>standard\<close> without a container selector, extraction
  returns no record, whatever the document holds, and no exception leaves it.
\<close>

theorem no_container_selector:
  assumes "extraction_type src = ''standard''" and "container_selector src = []"
  shows "extractEvents rt t html src sourceUrl = Inr []"
  using assms by (simp add: extractEvents_def standard_extraction_def)

theorem no_container_selector_witness:
  "extraction_type unselected_source = ''standard'' \<and> container_selector unselected_source = []
   \<and> extractEvents example_runtime may_2_2025 venue_page unselected_source
        ''https://example.com/events/'' = Inr []
   \<and> extractEvents example_runtime may_2_2025 (venue_page\<lparr>containers := Inl SelectorError\<rparr>)
        unselected_source ''https://example.com/events/'' = Inr []"
proof -
  have src: "extraction_type unselected_source = ''standard''"
    "container_selector unselected_source = []"
    by (simp_all add: unselected_source_def)
  from no_container_selector[OF src, where rt = example_runtime and t = may_2_2025
      and html = venue_page and sourceUrl = "''https://example.com/events/''"]
    no_container_selector[OF src, where rt = example_runtime and t = may_2_2025
      and html = "venue_page\<lparr>containers := Inl SelectorError\<rparr>"
      and sourceUrl = "''https://example.com/events/''"] src
  show ?thesis by simp
qed

section \<open>The url of a record\<close>

lemma container_event_url:
  assumes "container_event rt t src sourceUrl c = Some ev"
  shows "url ev = JStr (container_url rt src sourceUrl c)"
  using assms by (auto simp: container_event_def Let_def split: if_splits)

lemma container_event_url_resolved:
  assumes "url_selector src \<noteq> []" and "container_event rt t src sourceUrl c = Some ev"
    and "url_hrefs c = Some href # others" and "href \<noteq> []" and "\<not> startsWith href ''http''"
  shows "url ev = JStr (case resolve_URL rt href sourceUrl of
                         Some absolute \<Rightarrow> absolute
                       | None \<Rightarrow> href)"
  using assms container_event_url[OF assms(2)] by (simp add: container_url_def)

text \<open>
  Claim C7. The url of a record is the href of the first element that matches the url
  selector, made absolute against the page URL of the source when it is relative ("If URL
  is relative, make it absolute"), and kept as it is when the resolution fails. The code
  does so for the href "/show/123", which becomes "https://example.com/show/123" on the
  page "https://example.com/events/". But it takes an href for absolute when its text
  starts with "http": the href "httpdocs/show" is relative, the runtime resolves it to
  "https://example.com/events/httpdocs/show" on that page, and the record keeps
  "httpdocs/show".
\<close>

theorem relative_href_kept:
  "container_event example_runtime may_2_2025 venue_source ''https://example.com/events/''
      band_x_container = Some band_x_record
   \<and> url_hrefs band_x_container = [Some ''/show/123'']
   \<and> url band_x_record = JStr ''https://example.com/show/123''
   \<and> container_event example_runtime may_2_2025 venue_source ''https://example.com/events/''
      httpdocs_container = Some band_y_record
   \<and> url_hrefs httpdocs_container = [Some ''httpdocs/show'']
   \<and> url band_y_record = JStr ''httpdocs/show''
   \<and> spec_absolute_url ''httpdocs/show'' = False
   \<and> resolve_URL example_runtime ''httpdocs/show'' ''https://example.com/events/''
        = Some ''https://example.com/events/httpdocs/show''
   \<and> spec_record_url example_runtime ''https://example.com/events/''
        (url_hrefs httpdocs_container) = ''https://example.com/events/httpdocs/show''"
proof -
  have "container_event example_runtime may_2_2025 venue_source ''https://example.com/events/''
      band_x_container = Some band_x_record"
    by code_simp
  moreover have "url_hrefs band_x_container = [Some ''/show/123'']"
    by (simp add: band_x_container_def)
  moreover have "url band_x_record = JStr ''https://example.com/show/123''"
    by (simp add: band_x_record_def)
  moreover have "container_event example_runtime may_2_2025 venue_source
      ''https://example.com/events/'' httpdocs_container = Some band_y_record"
    by code_simp
  moreover have "url_hrefs httpdocs_container = [Some ''httpdocs/show'']"
    by (simp add: httpdocs_container_def)
  moreover have "url band_y_record = JStr ''httpdocs/show''"
    by (simp add: band_y_record_def)
  moreover have "spec_absolute_url ''httpdocs/show'' = False"
    by code_simp
  moreover have "resolve_URL example_runtime ''httpdocs/show'' ''https://example.com/events/''
        = Some ''https://example.com/events/httpdocs/show''"
    by (simp add: example_runtime_def)
  moreover have "spec_record_url example_runtime ''https://example.com/events/''
        (url_hrefs httpdocs_container) = ''https://example.com/events/httpdocs/show''"
    by code_simp
  ultimately show ?thesis by simp
qed

section \<open>Grouping\<close>

lemma bucket_of_empty:
  "bucket_of Map.empty r v = None"
  by (simp add: bucket_of_def)

lemma group_event_plain:
  assumes "plain_keys ev"
  shows "\<exists>g'. group_event g ev = Grouped g'
    \<and> (\<forall>r v. bucket_of g' r v =
          (if region_key ev = r \<and> venue_key ev = v
           then Some ((case bucket_of g r v of None \<Rightarrow> [] | Some b \<Rightarrow> b) @ [ev])
           else bucket_of g r v))"
  using assms
  by (auto simp: plain_keys_def bucket_of_def group_event_def Let_def split: option.splits)

lemma group_events_plain:
  assumes "\<forall>ev\<in>set evs. plain_keys ev"
  shows "\<exists>g'. group_events g evs = Grouped g'
    \<and> (\<forall>r v. bucket_of g' r v =
          (if spec_bucket evs r v = [] then bucket_of g r v
           else Some ((case bucket_of g r v of None \<Rightarrow> [] | Some b \<Rightarrow> b) @ spec_bucket evs r v)))"
  using assms
proof (induction evs arbitrary: g)
  case Nil
  then show ?case by (simp add: spec_bucket_def)
next
  case (Cons ev evs)
  from Cons.prems have "plain_keys ev" by simp
  from group_event_plain[OF this, of g] obtain g1 where g1: "group_event g ev = Grouped g1"
    and b1: "\<And>r v. bucket_of g1 r v =
          (if region_key ev = r \<and> venue_key ev = v
           then Some ((case bucket_of g r v of None \<Rightarrow> [] | Some b \<Rightarrow> b) @ [ev])
           else bucket_of g r v)"
    by blast
  from Cons.prems have "\<forall>ev\<in>set evs. plain_keys ev" by simp
  from Cons.IH[OF this, of g1] obtain g2 where g2: "group_events g1 evs = Grouped g2"
    and b2: "\<And>r v. bucket_of g2 r v =
          (if spec_bucket evs r v = [] then bucket_of g1 r v
           else Some ((case bucket_of g1 r v of None \<Rightarrow> [] | Some b \<Rightarrow> b) @ spec_bucket evs r v))"
    by blast
  have "group_events g (ev # evs) = Grouped g2"
    using g1 g2 by simp
  moreover have "bucket_of g2 r v =
          (if spec_bucket (ev # evs) r v = [] then bucket_of g r v
           else Some ((case bucket_of g r v of None \<Rightarrow> [] | Some b \<Rightarrow> b)
                  @ spec_bucket (ev # evs) r v))" for r v
    unfolding b2 b1 by (simp add: spec_bucket_def)
  ultimately show ?case by blast
qed

text \<open>
  What grouping does when no key of a record names a property of \<open>Object.prototype\<close>: it
  returns, a record with an empty region has the region key "Other Areas", a record with
  a venue that is not truthy has the venue key "Unknown Venue", and the buckets of the
  result are the non-empty lists of the records of the flat list with one region key and
  one venue key, in the order of the flat list.
\<close>

lemma grouping_of_plain_keys:
  assumes "\<forall>ev\<in>set evs. plain_keys ev"
  shows "\<exists>g. eventsByRegion evs = Grouped g
    \<and> (\<forall>r v. bucket_of g r v
          = (if spec_bucket evs r v = [] then None else Some (spec_bucket evs r v)))
    \<and> (\<forall>ev\<in>set evs. ev \<in> set (spec_bucket evs (region_key ev) (venue_key ev))
          \<and> (region ev = [] \<longrightarrow> region_key ev = ''Other Areas'')
          \<and> (\<not> truthy (venue ev) \<longrightarrow> venue_key ev = ''Unknown Venue''))"
proof -
  from group_events_plain[OF assms, of Map.empty] obtain g
    where "eventsByRegion evs = Grouped g"
      and "\<And>r v. bucket_of g r v
          = (if spec_bucket evs r v = [] then None else Some (spec_bucket evs r v))"
    unfolding eventsByRegion_def bucket_of_empty by auto
  moreover have "\<forall>ev\<in>set evs. ev \<in> set (spec_bucket evs (region_key ev) (venue_key ev))
          \<and> (region ev = [] \<longrightarrow> region_key ev = ''Other Areas'')
          \<and> (\<not> truthy (venue ev) \<longrightarrow> venue_key ev = ''Unknown Venue'')"
    by (simp add: spec_bucket_def region_key_def venue_key_def or_else_def)
  ultimately show ?thesis by blast
qed

lemma grouping_of_plain_keys_example:
  "\<exists>g. eventsByRegion [band_z_record, nowhere_record, band_x_record] = Grouped g
     \<and> bucket_of g ''Other Areas'' ''Unknown Venue'' = Some [nowhere_record]
     \<and> bucket_of g ''SF'' ''The Chapel'' = Some [band_z_record, band_x_record]
     \<and> bucket_of g ''SF'' ''Unknown Venue'' = None"
proof -
  let ?evs = "[band_z_record, nowhere_record, band_x_record]"
  have keys: "venue_key nowhere_record = ''Unknown Venue''"
    "region_key nowhere_record = ''Other Areas''"
    "region_key band_x_record = ''SF''" "venue_key band_x_record = ''The Chapel''"
    "region_key band_z_record = ''SF''" "venue_key band_z_record = ''The Chapel''"
    by (simp_all add: nowhere_record_def band_x_record_def band_z_record_def region_key_def
        venue_key_def or_else_def)
  have "\<forall>ev\<in>set ?evs. plain_keys ev"
    by (simp add: plain_keys_def keys objectPrototype_keys_def)
  from grouping_of_plain_keys[OF this] obtain g where "eventsByRegion ?evs = Grouped g"
    and "\<And>r v. bucket_of g r v
          = (if spec_bucket ?evs r v = [] then None else Some (spec_bucket ?evs r v))"
    by blast
  then show ?thesis by (auto simp: spec_bucket_def keys)
qed

text \<open>
  Claim C8. Grouping is to file every record of the flat list under its region key and
  its venue key, in the order of the flat list. The code keeps the buckets as properties
  of object literals and tests \<open>!eventsByRegion[region][venue]\<close> to see whether a bucket is
  there, which also finds what every object inherits: for a record whose venue is
  "constructor" (a name that extraction takes from the page) the test finds the function
  \<open>Object\<close>, no array is made, and \<open>.push\<close> throws a \<open>TypeError\<close>. So for the flat list of
  the record of The Chapel and that record, grouping throws, where the claim has the
  bucket of region "SF" and venue "constructor" hold the second record.
\<close>

theorem grouping_throws_for_constructor:
  "extractEvents example_runtime may_2_2025 (venue_name_page (JStr ''constructor''))
       eventbrite_source ''https://www.eventbrite.com/d/ca--san-francisco/music/''
     = Inr [band_v_record (JStr ''constructor'')]
   \<and> region_key (band_v_record (JStr ''constructor'')) = ''SF''
   \<and> venue_key (band_v_record (JStr ''constructor'')) = ''constructor''
   \<and> eventsByRegion [band_x_record, band_v_record (JStr ''constructor'')] = Throws TypeError
   \<and> spec_bucket [band_x_record, band_v_record (JStr ''constructor'')] ''SF'' ''constructor''
     = [band_v_record (JStr ''constructor'')]"
proof -
  have keys: "region_key (band_v_record (JStr ''constructor'')) = ''SF''"
    "venue_key (band_v_record (JStr ''constructor'')) = ''constructor''"
    "region_key band_x_record = ''SF''" "venue_key band_x_record = ''The Chapel''"
    by (simp_all add: band_v_record_def band_x_record_def region_key_def venue_key_def
        or_else_def)
  have "extractEvents example_runtime may_2_2025 (venue_name_page (JStr ''constructor''))
       eventbrite_source ''https://www.eventbrite.com/d/ca--san-francisco/music/''
     = Inr [band_v_record (JStr ''constructor'')]"
    by code_simp
  moreover have "eventsByRegion [band_x_record, band_v_record (JStr ''constructor'')]
      = Throws TypeError"
    by (simp add: eventsByRegion_def group_event_def keys objectPrototype_keys_def)
  moreover have "spec_bucket [band_x_record, band_v_record (JStr ''constructor'')]
      ''SF'' ''constructor'' = [band_v_record (JStr ''constructor'')]"
    by (simp add: spec_bucket_def keys)
  ultimately show ?thesis using keys by simp
qed
end
